theory Spec2Isabelle
  imports Complex_Main "HOL-Library.Word" "HOL-Library.Monad_Syntax"
begin

section \<open>Maze game, lesson 06: cubicmap mesh generation, camera and collisions\<close>

text \<open>
  A shallow embedding of \<^verbatim>\<open>06_maze_game_camera.c\<close>: the cubicmap mesh generator
  \<^verbatim>\<open>GenMeshCubicmap\<close>, the first-person camera \<^verbatim>\<open>UpdateCamera\<close>, the overlap test
  \<^verbatim>\<open>CheckCollisionCircleRec\<close> and the collision step of the main loop.

  Conventions of the embedding:
  \<^item> a C \<^verbatim>\<open>float\<close> is the real number it stands for. In \<^verbatim>\<open>CheckCollisionCircleRec\<close>
    and in the vertex coordinates of the generator every arithmetic operation and every
    conversion from \<^verbatim>\<open>int\<close> is followed by the rounding of IEEE binary32 (to nearest,
    ties to even), one rounding per operation as with \<^verbatim>\<open>FLT_EVAL_METHOD\<close> 0 and no
    contraction. In \<^verbatim>\<open>UpdateCamera\<close> the arithmetic is exact: \<^verbatim>\<open>sinf\<close> and \<^verbatim>\<open>cosf\<close> are
    the real sine and cosine;
  \<^item> \<^verbatim>\<open>unsigned char\<close> is an 8-bit word;
  \<^item> sizes, loop indices and counters (\<^verbatim>\<open>int\<close>, \<^verbatim>\<open>unsigned int\<close>) are natural numbers
    or integers; in \<^verbatim>\<open>GenMeshCubicmap\<close> the \<^verbatim>\<open>unsigned\<close> product for \<^verbatim>\<open>maxTriangles\<close>
    wraps at \<^verbatim>\<open>2^32\<close> and an \<^verbatim>\<open>int\<close> expression outside the range of \<^verbatim>\<open>int\<close> is the
    value \<open>None\<close>;
  \<^item> a read or write outside an allocated array is the value \<open>None\<close>;
  \<^item> an \<^verbatim>\<open>Image\<close> is given by its dimensions and the \<^verbatim>\<open>Color\<close> array that
    \<^verbatim>\<open>GetImageData\<close> returns for it (\<open>width * height\<close> pixels, row-major).
\<close>

subsection \<open>Data types\<close>

record Color =
  col_r :: "8 word"
  col_g :: "8 word"
  col_b :: "8 word"
  col_a :: "8 word"

record Rectangle =
  rec_x :: int
  rec_y :: int
  rec_width :: int
  rec_height :: int

record Vector2 =
  v2_x :: real
  v2_y :: real

record Vector3 =
  v3_x :: real
  v3_y :: real
  v3_z :: real

record Image =
  img_width :: nat
  img_height :: nat
  img_pixels :: "Color list"

record Camera =
  position :: Vector3
  target :: Vector3
  up :: Vector3
  fovy :: real

datatype CameraMove = MOVE_FRONT | MOVE_BACK | MOVE_RIGHT | MOVE_LEFT | MOVE_UP | MOVE_DOWN

record Mesh =
  vertexCount :: nat
  vertices :: "real list"
  texcoords :: "real list"
  normals :: "real list"

subsection \<open>C arithmetic\<close>

text \<open>Conversion of a \<^verbatim>\<open>float\<close> to \<^verbatim>\<open>int\<close> truncates towards zero.\<close>

definition c_trunc :: "real \<Rightarrow> int" where
  "c_trunc v = (if 0 \<le> v then \<lfloor>v\<rfloor> else \<lceil>v\<rceil>)"

text \<open>Division of two \<^verbatim>\<open>int\<close>s truncates towards zero.\<close>

definition c_div :: "int \<Rightarrow> int \<Rightarrow> int" where
  "c_div m n = sgn m * sgn n * (\<bar>m\<bar> div \<bar>n\<bar>)"

subsection \<open>Binary32 arithmetic\<close>

text \<open>Rounding of a real that is not negative to the nearest integer, ties to even.\<close>

definition rne :: "real \<Rightarrow> int" where
  "rne y = (let f = \<lfloor>y\<rfloor>; r = y - of_int f
            in if r < 1 / 2 then f else if r > 1 / 2 then f + 1
               else if even f then f else f + 1)"

text \<open>
  The exponent of the binade of a magnitude: the largest \<open>e\<close> from -126 to 127 with
  \<^verbatim>\<open>2^e <= a\<close>, and -126 below the normal range. The search runs down from 127 and
  carries the power of two along.
\<close>

primrec fexp_search :: "nat \<Rightarrow> real \<Rightarrow> real \<Rightarrow> int" where
  "fexp_search 0 p a = - 126"
| "fexp_search (Suc n) p a = (if p \<le> a then int n - 125 else fexp_search n (p / 2) a)"

definition fexp :: "real \<Rightarrow> int" where
  "fexp a = fexp_search 253 (2 ^ 127) a"

text \<open>
  The rounding of a magnitude to 24 significant bits (to a multiple of \<^verbatim>\<open>2^-149\<close> below
  the normal range), and of a real of either sign. The result of \<open>fl32\<close> is beyond
  \<open>FLT_MAX\<close> exactly when the operation overflows.
\<close>

definition fl32_mag :: "real \<Rightarrow> real" where
  "fl32_mag a = (let q = 2 powi (fexp a - 23) in q * of_int (rne (a / q)))"

definition fl32 :: "real \<Rightarrow> real" where
  "fl32 v = (if v < 0 then - fl32_mag (- v) else fl32_mag v)"

definition FLT_MAX :: real where
  "FLT_MAX = (2 ^ 24 - 1) * 2 ^ 104"

text \<open>
  Operations whose result is not negative and may overflow: \<open>None\<close> is plus infinity.
\<close>

definition fl32_inf :: "real \<Rightarrow> real option" where
  "fl32_inf v = (if fl32 v \<le> FLT_MAX then Some (fl32 v) else None)"

definition add_inf :: "real option \<Rightarrow> real option \<Rightarrow> real option" where
  "add_inf u v = (case u of None \<Rightarrow> None
                  | Some a \<Rightarrow> (case v of None \<Rightarrow> None | Some b \<Rightarrow> fl32_inf (a + b)))"

definition le_inf :: "real option \<Rightarrow> real option \<Rightarrow> bool" where
  "le_inf u v = (case v of None \<Rightarrow> True
                 | Some b \<Rightarrow> (case u of None \<Rightarrow> False | Some a \<Rightarrow> a \<le> b))"

subsection \<open>Circle against rectangle\<close>

definition recCenterX :: "Rectangle \<Rightarrow> int" where
  "recCenterX rec = rec_x rec + c_div (rec_width rec) 2"

definition recCenterY :: "Rectangle \<Rightarrow> int" where
  "recCenterY rec = rec_y rec + c_div (rec_height rec) 2"

text \<open>
  The integer centre is converted to \<^verbatim>\<open>float\<close> for the subtraction; the two squares,
  their sum and the square of the radius are the operations that can overflow for
  finite arguments.
\<close>

definition CheckCollisionCircleRec :: "Vector2 \<Rightarrow> real \<Rightarrow> Rectangle \<Rightarrow> bool" where
  "CheckCollisionCircleRec center radius rec =
     (let dx = \<bar>fl32 (v2_x center - fl32 (real_of_int (recCenterX rec)))\<bar>;
          dy = \<bar>fl32 (v2_y center - fl32 (real_of_int (recCenterY rec)))\<bar>;
          hw = fl32 (fl32 (real_of_int (rec_width rec)) / 2);
          hh = fl32 (fl32 (real_of_int (rec_height rec)) / 2)
      in if dx > fl32 (hw + radius) then False
         else if dy > fl32 (hh + radius) then False
         else if dx \<le> hw then True
         else if dy \<le> hh then True
         else le_inf (add_inf (fl32_inf (fl32 (dx - hw) * fl32 (dx - hw)))
                              (fl32_inf (fl32 (dy - hh) * fl32 (dy - hh))))
                     (fl32_inf (radius * radius)))"

subsection \<open>The collision step of the main loop\<close>

definition mapPosition :: Vector3 where
  "mapPosition = \<lparr>v3_x = 0, v3_y = 0, v3_z = 0\<rparr>"

text \<open>The \<^verbatim>\<open>float\<close> literal \<^verbatim>\<open>0.1f\<close>: the binary32 value nearest to one tenth.\<close>

definition playerRadius :: real where
  "playerRadius = 13421773 / 134217728"

text \<open>
  The rectangle the main loop builds for the cell \<open>(x, y)\<close>: the four \<^verbatim>\<open>float\<close>
  initialisers are converted to the \<^verbatim>\<open>int\<close> fields of \<^verbatim>\<open>Rectangle\<close>.
\<close>

definition cell_rectangle :: "nat \<Rightarrow> nat \<Rightarrow> Rectangle" where
  "cell_rectangle x y =
     \<lparr>rec_x = c_trunc (v3_x mapPosition + 1 / 2 + real x * 1),
      rec_y = c_trunc (v3_y mapPosition + 1 / 2 + real y * 1),
      rec_width = c_trunc 1,
      rec_height = c_trunc 1\<rparr>"


text \<open>
  The two nested loops of the main loop run \<open>y\<close> and \<open>x\<close> up to \<^verbatim>\<open>imMap.width\<close>
  each; the cells are listed in the order in which the loops reach them.
\<close>

definition scan_cells :: "Image \<Rightarrow> (nat \<times> nat) list" where
  "scan_cells imMap =
     concat (map (\<lambda>y. map (\<lambda>x. (x, y)) [0..<img_width imMap]) [0..<img_width imMap])"

definition pixel_at :: "Color list \<Rightarrow> nat \<Rightarrow> Color option" where
  "pixel_at ps i = (if i < length ps then Some (ps ! i) else None)"

fun fold_option :: "('s \<Rightarrow> 'a \<Rightarrow> 's option) \<Rightarrow> 's \<Rightarrow> 'a list \<Rightarrow> 's option" where
  "fold_option f s [] = Some s"
| "fold_option f s (c # cs) = (case f s c of None \<Rightarrow> None | Some s' \<Rightarrow> fold_option f s' cs)"

text \<open>The test the main loop applies to the pixel of a cell before the overlap test.\<close>

definition is_collider :: "Color \<Rightarrow> bool" where
  "is_collider c \<longleftrightarrow> col_r c = 255"

definition check_cell :: "Image \<Rightarrow> Vector2 \<Rightarrow> Vector3 \<Rightarrow> Camera \<Rightarrow> nat \<times> nat \<Rightarrow> Camera option" where
  "check_cell imMap playerPos oldCamPos camera cell =
     (case cell of (x, y) \<Rightarrow>
        do {
          c \<leftarrow> pixel_at (img_pixels imMap) (y * img_width imMap + x);
          Some (if is_collider c \<and> CheckCollisionCircleRec playerPos playerRadius (cell_rectangle x y)
                then camera\<lparr>position := oldCamPos\<rparr>
                else camera)
        })"

definition resolve_collisions :: "Image \<Rightarrow> Vector2 \<Rightarrow> Vector3 \<Rightarrow> Camera \<Rightarrow> Camera option" where
  "resolve_collisions imMap playerPos oldCamPos camera =
     fold_option (check_cell imMap playerPos oldCamPos) camera (scan_cells imMap)"

subsection \<open>The first-person camera\<close>

text \<open>
  \<^verbatim>\<open>UpdateCamera\<close> reads the mouse position and the six movement keys, and keeps the
  camera angle, the swing counter and the previous mouse position in variables that
  outlive the call.
\<close>

record camera_input =
  mousePosition :: Vector2
  direction :: "CameraMove \<Rightarrow> bool"

record camera_globals =
  cameraAngle :: Vector2
  swingCounter :: int
  previousMousePosition :: Vector2

text \<open>The six entries of \<^verbatim>\<open>direction\<close>, in the order of their indices.\<close>

definition all_moves :: "CameraMove list" where
  "all_moves = [MOVE_FRONT, MOVE_BACK, MOVE_RIGHT, MOVE_LEFT, MOVE_UP, MOVE_DOWN]"

definition PLAYER_MOVEMENT_SENSITIVITY :: real where
  "PLAYER_MOVEMENT_SENSITIVITY = 20"

definition CAMERA_MOUSE_MOVE_SENSITIVITY :: real where
  "CAMERA_MOUSE_MOVE_SENSITIVITY = 3 / 1000"

definition CAMERA_FIRST_PERSON_FOCUS_DISTANCE :: real where
  "CAMERA_FIRST_PERSON_FOCUS_DISTANCE = 25"

definition CAMERA_FIRST_PERSON_MIN_CLAMP :: real where
  "CAMERA_FIRST_PERSON_MIN_CLAMP = 85"

definition CAMERA_FIRST_PERSON_MAX_CLAMP :: real where
  "CAMERA_FIRST_PERSON_MAX_CLAMP = - 85"

definition CAMERA_FIRST_PERSON_STEP_TRIGONOMETRIC_DIVIDER :: real where
  "CAMERA_FIRST_PERSON_STEP_TRIGONOMETRIC_DIVIDER = 5"

definition CAMERA_FIRST_PERSON_STEP_DIVIDER :: real where
  "CAMERA_FIRST_PERSON_STEP_DIVIDER = 30"

definition CAMERA_FIRST_PERSON_WAVING_DIVIDER :: real where
  "CAMERA_FIRST_PERSON_WAVING_DIVIDER = 200"

definition playerEyesPosition :: real where
  "playerEyesPosition = 6 / 10"

text \<open>
  Modelled from the spec: the macro \<^verbatim>\<open>DEG2RAD\<close> comes from \<^verbatim>\<open>raymath.h\<close>, which is not
  part of the sources; the pitch is clamped to 85 degrees either way, so the macro
  converts degrees to radians.
\<close>

definition DEG2RAD :: real where
  "DEG2RAD = pi / 180"

definition UpdateCamera :: "camera_input \<Rightarrow> camera_globals \<Rightarrow> Camera \<Rightarrow> camera_globals \<times> Camera" where
  "UpdateCamera inp g camera =
     (let dir = (\<lambda>m. of_bool (direction inp m) :: real);
          mousePositionDelta =
            \<lparr>v2_x = v2_x (mousePosition inp) - v2_x (previousMousePosition g),
             v2_y = v2_y (mousePosition inp) - v2_y (previousMousePosition g)\<rparr>;
          ax = v2_x (cameraAngle g);
          ay = v2_y (cameraAngle g);
          px = v3_x (position camera)
                 + (sin ax * dir MOVE_BACK - sin ax * dir MOVE_FRONT
                    - cos ax * dir MOVE_LEFT + cos ax * dir MOVE_RIGHT) / PLAYER_MOVEMENT_SENSITIVITY;
          py = v3_y (position camera)
                 + (sin ay * dir MOVE_FRONT - sin ay * dir MOVE_BACK
                    + 1 * dir MOVE_UP - 1 * dir MOVE_DOWN) / PLAYER_MOVEMENT_SENSITIVITY;
          pz = v3_z (position camera)
                 + (cos ax * dir MOVE_BACK - cos ax * dir MOVE_FRONT
                    + sin ax * dir MOVE_LEFT - sin ax * dir MOVE_RIGHT) / PLAYER_MOVEMENT_SENSITIVITY;
          isMoving = list_ex (direction inp) all_moves;
          ax' = ax + v2_x mousePositionDelta * - CAMERA_MOUSE_MOVE_SENSITIVITY;
          ay1 = ay + v2_y mousePositionDelta * - CAMERA_MOUSE_MOVE_SENSITIVITY;
          ay' = (if ay1 > CAMERA_FIRST_PERSON_MIN_CLAMP * DEG2RAD
                 then CAMERA_FIRST_PERSON_MIN_CLAMP * DEG2RAD
                 else if ay1 < CAMERA_FIRST_PERSON_MAX_CLAMP * DEG2RAD
                 then CAMERA_FIRST_PERSON_MAX_CLAMP * DEG2RAD
                 else ay1);
          tgt = \<lparr>v3_x = px - sin ax' * CAMERA_FIRST_PERSON_FOCUS_DISTANCE,
                 v3_y = py + sin ay' * CAMERA_FIRST_PERSON_FOCUS_DISTANCE,
                 v3_z = pz - cos ax' * CAMERA_FIRST_PERSON_FOCUS_DISTANCE\<rparr>;
          swing = (if isMoving then swingCounter g + 1 else swingCounter g);
          py' = playerEyesPosition
                  - sin (real_of_int swing / CAMERA_FIRST_PERSON_STEP_TRIGONOMETRIC_DIVIDER)
                    / CAMERA_FIRST_PERSON_STEP_DIVIDER;
          up' = (up camera)
                  \<lparr>v3_x := sin (real_of_int swing / (CAMERA_FIRST_PERSON_STEP_TRIGONOMETRIC_DIVIDER * 2))
                            / CAMERA_FIRST_PERSON_WAVING_DIVIDER,
                   v3_z := - sin (real_of_int swing / (CAMERA_FIRST_PERSON_STEP_TRIGONOMETRIC_DIVIDER * 2))
                            / CAMERA_FIRST_PERSON_WAVING_DIVIDER\<rparr>
      in (\<lparr>cameraAngle = \<lparr>v2_x = ax', v2_y = ay'\<rparr>,
           swingCounter = swing,
           previousMousePosition = mousePosition inp\<rparr>,
          camera\<lparr>position := \<lparr>v3_x = px, v3_y = py', v3_z = pz\<rparr>, target := tgt, up := up'\<rparr>))"

text \<open>
  The update part of one iteration of the main loop: the position is saved, the camera
  is updated, and the collision step runs on the new position. (The player's cell,
  which the loop also computes, is only printed.)
\<close>

definition frame :: "Image \<Rightarrow> camera_input \<Rightarrow> camera_globals \<times> Camera \<Rightarrow> (camera_globals \<times> Camera) option" where
  "frame imMap inp gc =
     (case gc of (g, camera) \<Rightarrow>
        (let oldCamPos = position camera in
         case UpdateCamera inp g camera of (g', camera') \<Rightarrow>
           (let playerPos = \<lparr>v2_x = v3_x (position camera'), v2_y = v3_z (position camera')\<rparr>
            in map_option (Pair g') (resolve_collisions imMap playerPos oldCamPos camera'))))"

subsection \<open>The cubicmap mesh generator\<close>

text \<open>The two colour tests of the generator: all three channels 255, all three channels 0.\<close>

definition is_white :: "Color \<Rightarrow> bool" where
  "is_white c \<longleftrightarrow> col_r c = 255 \<and> col_g c = 255 \<and> col_b c = 255"

definition is_black :: "Color \<Rightarrow> bool" where
  "is_black c \<longleftrightarrow> col_r c = 0 \<and> col_g c = 0 \<and> col_b c = 0"

text \<open>The six normals.\<close>

definition n1 :: Vector3 where "n1 = \<lparr>v3_x = 1, v3_y = 0, v3_z = 0\<rparr>"
definition n2 :: Vector3 where "n2 = \<lparr>v3_x = - 1, v3_y = 0, v3_z = 0\<rparr>"
definition n3 :: Vector3 where "n3 = \<lparr>v3_x = 0, v3_y = 1, v3_z = 0\<rparr>"
definition n4 :: Vector3 where "n4 = \<lparr>v3_x = 0, v3_y = - 1, v3_z = 0\<rparr>"
definition n5 :: Vector3 where "n5 = \<lparr>v3_x = 0, v3_y = 0, v3_z = 1\<rparr>"
definition n6 :: Vector3 where "n6 = \<lparr>v3_x = 0, v3_y = 0, v3_z = - 1\<rparr>"

text \<open>The texture rectangles of the atlas.\<close>

record RectangleF =
  rf_x :: real
  rf_y :: real
  rf_width :: real
  rf_height :: real

definition rightTexUV :: RectangleF where
  "rightTexUV = \<lparr>rf_x = 0, rf_y = 0, rf_width = 1 / 2, rf_height = 1 / 2\<rparr>"
definition leftTexUV :: RectangleF where
  "leftTexUV = \<lparr>rf_x = 1 / 2, rf_y = 0, rf_width = 1 / 2, rf_height = 1 / 2\<rparr>"
definition frontTexUV :: RectangleF where
  "frontTexUV = \<lparr>rf_x = 0, rf_y = 0, rf_width = 1 / 2, rf_height = 1 / 2\<rparr>"
definition backTexUV :: RectangleF where
  "backTexUV = \<lparr>rf_x = 1 / 2, rf_y = 0, rf_width = 1 / 2, rf_height = 1 / 2\<rparr>"
definition topTexUV :: RectangleF where
  "topTexUV = \<lparr>rf_x = 0, rf_y = 1 / 2, rf_width = 1 / 2, rf_height = 1 / 2\<rparr>"
definition bottomTexUV :: RectangleF where
  "bottomTexUV = \<lparr>rf_x = 1 / 2, rf_y = 1 / 2, rf_width = 1 / 2, rf_height = 1 / 2\<rparr>"

text \<open>The four corners of a texture rectangle, as the generator writes them.\<close>

definition uv_xy :: "RectangleF \<Rightarrow> Vector2" where
  "uv_xy t = \<lparr>v2_x = rf_x t, v2_y = rf_y t\<rparr>"
definition uv_xh :: "RectangleF \<Rightarrow> Vector2" where
  "uv_xh t = \<lparr>v2_x = rf_x t, v2_y = rf_y t + rf_height t\<rparr>"
definition uv_wy :: "RectangleF \<Rightarrow> Vector2" where
  "uv_wy t = \<lparr>v2_x = rf_x t + rf_width t, v2_y = rf_y t\<rparr>"
definition uv_wh :: "RectangleF \<Rightarrow> Vector2" where
  "uv_wh t = \<lparr>v2_x = rf_x t + rf_width t, v2_y = rf_y t + rf_height t\<rparr>"

text \<open>
  The eight corners of the cube of cell \<open>(x, z)\<close>; \<^verbatim>\<open>w\<close>, \<^verbatim>\<open>h\<close> and \<^verbatim>\<open>h2\<close> are all
  \<^verbatim>\<open>cubeSize\<close>. In \<^verbatim>\<open>w*(x - 0.5f)\<close> the index is converted to \<^verbatim>\<open>float\<close>, and the
  difference and the product are rounded. A coordinate beyond \<open>FLT_MAX\<close> in magnitude
  stands for the infinity that the code stores when the product overflows.
\<close>

definition v1 :: "real \<Rightarrow> nat \<Rightarrow> nat \<Rightarrow> Vector3" where
  "v1 cubeSize x z =
     \<lparr>v3_x = fl32 (cubeSize * fl32 (fl32 (real x) - 1 / 2)), v3_y = cubeSize,
      v3_z = fl32 (cubeSize * fl32 (fl32 (real z) - 1 / 2))\<rparr>"
definition v2 :: "real \<Rightarrow> nat \<Rightarrow> nat \<Rightarrow> Vector3" where
  "v2 cubeSize x z =
     \<lparr>v3_x = fl32 (cubeSize * fl32 (fl32 (real x) - 1 / 2)), v3_y = cubeSize,
      v3_z = fl32 (cubeSize * fl32 (fl32 (real z) + 1 / 2))\<rparr>"
definition v3 :: "real \<Rightarrow> nat \<Rightarrow> nat \<Rightarrow> Vector3" where
  "v3 cubeSize x z =
     \<lparr>v3_x = fl32 (cubeSize * fl32 (fl32 (real x) + 1 / 2)), v3_y = cubeSize,
      v3_z = fl32 (cubeSize * fl32 (fl32 (real z) + 1 / 2))\<rparr>"
definition v4 :: "real \<Rightarrow> nat \<Rightarrow> nat \<Rightarrow> Vector3" where
  "v4 cubeSize x z =
     \<lparr>v3_x = fl32 (cubeSize * fl32 (fl32 (real x) + 1 / 2)), v3_y = cubeSize,
      v3_z = fl32 (cubeSize * fl32 (fl32 (real z) - 1 / 2))\<rparr>"
definition v5 :: "real \<Rightarrow> nat \<Rightarrow> nat \<Rightarrow> Vector3" where
  "v5 cubeSize x z =
     \<lparr>v3_x = fl32 (cubeSize * fl32 (fl32 (real x) + 1 / 2)), v3_y = 0,
      v3_z = fl32 (cubeSize * fl32 (fl32 (real z) - 1 / 2))\<rparr>"
definition v6 :: "real \<Rightarrow> nat \<Rightarrow> nat \<Rightarrow> Vector3" where
  "v6 cubeSize x z =
     \<lparr>v3_x = fl32 (cubeSize * fl32 (fl32 (real x) - 1 / 2)), v3_y = 0,
      v3_z = fl32 (cubeSize * fl32 (fl32 (real z) - 1 / 2))\<rparr>"
definition v7 :: "real \<Rightarrow> nat \<Rightarrow> nat \<Rightarrow> Vector3" where
  "v7 cubeSize x z =
     \<lparr>v3_x = fl32 (cubeSize * fl32 (fl32 (real x) - 1 / 2)), v3_y = 0,
      v3_z = fl32 (cubeSize * fl32 (fl32 (real z) + 1 / 2))\<rparr>"
definition v8 :: "real \<Rightarrow> nat \<Rightarrow> nat \<Rightarrow> Vector3" where
  "v8 cubeSize x z =
     \<lparr>v3_x = fl32 (cubeSize * fl32 (fl32 (real x) + 1 / 2)), v3_y = 0,
      v3_z = fl32 (cubeSize * fl32 (fl32 (real z) + 1 / 2))\<rparr>"

text \<open>
  The eight blocks of the loop body that write a face (two triangles, six vertices):
  six in the branch of a white pixel, two (\<open>RoofF\<close> at height \<^verbatim>\<open>h2\<close>, \<open>FloorF\<close> at
  height 0) in the branch of a black pixel.
\<close>

datatype face = TopF | BottomF | FrontF | BackF | RightF | LeftF | RoofF | FloorF

fun face_vertices :: "real \<Rightarrow> nat \<Rightarrow> nat \<Rightarrow> face \<Rightarrow> Vector3 list" where
  "face_vertices s x z TopF = [v1 s x z, v2 s x z, v3 s x z, v1 s x z, v3 s x z, v4 s x z]"
| "face_vertices s x z BottomF = [v6 s x z, v8 s x z, v7 s x z, v6 s x z, v5 s x z, v8 s x z]"
| "face_vertices s x z FrontF = [v2 s x z, v7 s x z, v3 s x z, v3 s x z, v7 s x z, v8 s x z]"
| "face_vertices s x z BackF = [v1 s x z, v5 s x z, v6 s x z, v1 s x z, v4 s x z, v5 s x z]"
| "face_vertices s x z RightF = [v3 s x z, v8 s x z, v4 s x z, v4 s x z, v8 s x z, v5 s x z]"
| "face_vertices s x z LeftF = [v1 s x z, v7 s x z, v2 s x z, v1 s x z, v6 s x z, v7 s x z]"
| "face_vertices s x z RoofF = [v1 s x z, v3 s x z, v2 s x z, v1 s x z, v4 s x z, v3 s x z]"
| "face_vertices s x z FloorF = [v6 s x z, v7 s x z, v8 s x z, v6 s x z, v8 s x z, v5 s x z]"

fun face_normal :: "face \<Rightarrow> Vector3" where
  "face_normal TopF = n3"
| "face_normal BottomF = n4"
| "face_normal FrontF = n6"
| "face_normal BackF = n5"
| "face_normal RightF = n1"
| "face_normal LeftF = n2"
| "face_normal RoofF = n4"
| "face_normal FloorF = n3"

fun face_texcoords :: "face \<Rightarrow> Vector2 list" where
  "face_texcoords TopF =
     [uv_xy topTexUV, uv_xh topTexUV, uv_wh topTexUV, uv_xy topTexUV, uv_wh topTexUV, uv_wy topTexUV]"
| "face_texcoords BottomF =
     [uv_wy bottomTexUV, uv_xh bottomTexUV, uv_wh bottomTexUV,
      uv_wy bottomTexUV, uv_xy bottomTexUV, uv_xh bottomTexUV]"
| "face_texcoords FrontF =
     [uv_xy frontTexUV, uv_xh frontTexUV, uv_wy frontTexUV,
      uv_wy frontTexUV, uv_xh frontTexUV, uv_wh frontTexUV]"
| "face_texcoords BackF =
     [uv_wy backTexUV, uv_xh backTexUV, uv_wh backTexUV, uv_wy backTexUV, uv_xy backTexUV, uv_xh backTexUV]"
| "face_texcoords RightF =
     [uv_xy rightTexUV, uv_xh rightTexUV, uv_wy rightTexUV,
      uv_wy rightTexUV, uv_xh rightTexUV, uv_wh rightTexUV]"
| "face_texcoords LeftF =
     [uv_xy leftTexUV, uv_wh leftTexUV, uv_wy leftTexUV, uv_xy leftTexUV, uv_xh leftTexUV, uv_wh leftTexUV]"
| "face_texcoords RoofF =
     [uv_xy topTexUV, uv_wh topTexUV, uv_xh topTexUV, uv_xy topTexUV, uv_wy topTexUV, uv_wh topTexUV]"
| "face_texcoords FloorF =
     [uv_wy bottomTexUV, uv_wh bottomTexUV, uv_xh bottomTexUV,
      uv_wy bottomTexUV, uv_xh bottomTexUV, uv_xy bottomTexUV]"

text \<open>
  The scratch buffers and their counters. A buffer is the list of its slots from 0 on;
  writing six elements at slot \<open>k\<close> of a buffer of \<open>cap\<close> slots keeps the slots below
  \<open>k\<close>, and is out of bounds when \<open>k + 6\<close> exceeds \<open>cap\<close>.
\<close>

record gen_state =
  mapVertices :: "Vector3 list"
  mapTexcoords :: "Vector2 list"
  mapNormals :: "Vector3 list"
  vCounter :: nat
  tcCounter :: nat
  nCounter :: nat

definition write6 :: "nat \<Rightarrow> 'a list \<Rightarrow> nat \<Rightarrow> 'a list \<Rightarrow> 'a list option" where
  "write6 cap buf k elems = (if k + 6 \<le> cap then Some (take k buf @ elems) else None)"

definition emit_face :: "nat \<Rightarrow> real \<Rightarrow> nat \<Rightarrow> nat \<Rightarrow> gen_state \<Rightarrow> face \<Rightarrow> gen_state option" where
  "emit_face cap cubeSize x z st f =
     do {
       vs \<leftarrow> write6 cap (mapVertices st) (vCounter st) (face_vertices cubeSize x z f);
       ns \<leftarrow> write6 cap (mapNormals st) (nCounter st) (replicate 6 (face_normal f));
       ts \<leftarrow> write6 cap (mapTexcoords st) (tcCounter st) (face_texcoords f);
       Some \<lparr>mapVertices = vs, mapTexcoords = ts, mapNormals = ns,
             vCounter = vCounter st + 6, tcCounter = tcCounter st + 6, nCounter = nCounter st + 6\<rparr>
     }"

text \<open>
  The test in front of a side face: \<^verbatim>\<open>(inside && r == 0 && g == 0 && b == 0) || edge\<close>,
  where the neighbour's pixel is read only when \<open>inside\<close> holds.
\<close>

definition side_test :: "Image \<Rightarrow> bool \<Rightarrow> nat \<Rightarrow> bool \<Rightarrow> bool option" where
  "side_test cubicmap inside i edge =
     (if inside then do { c \<leftarrow> pixel_at (img_pixels cubicmap) i; Some (is_black c \<or> edge) }
      else Some edge)"

text \<open>The faces the loop body writes for the cell \<open>(x, z)\<close>, in the order of writing.\<close>

definition cell_faces :: "Image \<Rightarrow> nat \<Rightarrow> nat \<Rightarrow> face list option" where
  "cell_faces cubicmap x z =
     do {
       c \<leftarrow> pixel_at (img_pixels cubicmap) (z * img_width cubicmap + x);
       if is_white c then
         do {
           front \<leftarrow> side_test cubicmap (z < img_height cubicmap - 1)
                      ((z + 1) * img_width cubicmap + x) (z = img_height cubicmap - 1);
           back \<leftarrow> side_test cubicmap (z > 0)
                      ((z - 1) * img_width cubicmap + x) (z = 0);
           right \<leftarrow> side_test cubicmap (x < img_width cubicmap - 1)
                      (z * img_width cubicmap + (x + 1)) (x = img_width cubicmap - 1);
           left \<leftarrow> side_test cubicmap (x > 0)
                      (z * img_width cubicmap + (x - 1)) (x = 0);
           Some ([TopF, BottomF] @ (if front then [FrontF] else []) @ (if back then [BackF] else [])
                 @ (if right then [RightF] else []) @ (if left then [LeftF] else []))
         }
       else if is_black c then Some [RoofF, FloorF]
       else Some []
     }"

definition gen_cell :: "Image \<Rightarrow> real \<Rightarrow> nat \<Rightarrow> gen_state \<Rightarrow> nat \<times> nat \<Rightarrow> gen_state option" where
  "gen_cell cubicmap cubeSize cap st cell =
     (case cell of (x, z) \<Rightarrow>
        do {
          fs \<leftarrow> cell_faces cubicmap x z;
          fold_option (emit_face cap cubeSize x z) st fs
        })"

text \<open>The cells in the order of the generator's loops: \<open>z\<close> outside, \<open>x\<close> inside.\<close>

definition map_cells :: "nat \<Rightarrow> nat \<Rightarrow> (nat \<times> nat) list" where
  "map_cells mapWidth mapHeight =
     concat (map (\<lambda>z. map (\<lambda>x. (x, z)) [0..<mapWidth]) [0..<mapHeight])"

definition flat3 :: "Vector3 \<Rightarrow> real list" where
  "flat3 v = [v3_x v, v3_y v, v3_z v]"

definition flat2 :: "Vector2 \<Rightarrow> real list" where
  "flat2 v = [v2_x v, v2_y v]"

definition INT_MAX :: nat where
  "INT_MAX = 2 ^ 31 - 1"

definition in_int_range :: "int \<Rightarrow> bool" where
  "in_int_range i \<longleftrightarrow> - (2 ^ 31) \<le> i \<and> i \<le> int INT_MAX"

text \<open>
  The value of an \<^verbatim>\<open>unsigned int\<close> expression, reduced modulo \<^verbatim>\<open>2^32\<close>, stored in an
  \<^verbatim>\<open>int\<close>: above \<^verbatim>\<open>INT_MAX\<close> it becomes negative (the conversion is
  implementation-defined; this is the one of gcc and clang).
\<close>

definition int_of_unsigned :: "nat \<Rightarrow> int" where
  "int_of_unsigned n =
     (if n mod 2 ^ 32 \<le> INT_MAX then int (n mod 2 ^ 32) else int (n mod 2 ^ 32) - 2 ^ 32)"

text \<open>
  \<^verbatim>\<open>mapWidth\<close>, \<^verbatim>\<open>mapHeight\<close> and \<^verbatim>\<open>maxTriangles\<close> are \<^verbatim>\<open>int\<close>s initialised from
  \<^verbatim>\<open>unsigned\<close> expressions; a loop up to a negative bound does not run.
  \<^verbatim>\<open>maxTriangles*3\<close> is an \<^verbatim>\<open>int\<close> product that sizes the scratch buffers: no slot
  can be written when it is negative (the allocation of the converted size fails), and
  a counter of a buffer stays below it, so within \<^verbatim>\<open>int\<close>. The final arrays hold
  \<open>vertexCount * 3\<close> and \<open>vertexCount * 2\<close> floats, with \<^verbatim>\<open>vertexCount*3\<close> an \<^verbatim>\<open>int\<close>
  product that the \<^verbatim>\<open>int\<close> counter \<^verbatim>\<open>fCounter\<close> reaches; the three copy loops run to
  \<open>vCounter\<close>, \<open>nCounter\<close> and \<open>tcCounter\<close>. The result is \<open>None\<close> when one of the
  \<^verbatim>\<open>int\<close> products leaves the range of \<^verbatim>\<open>int\<close>, when a copy loop would write past a
  final array or when it would read a slot of a scratch buffer that was never written.
  The identifiers that \<^verbatim>\<open>UploadMeshData\<close> fills in later are left out of \<open>Mesh\<close>.
\<close>

definition GenMeshCubicmap :: "Image \<Rightarrow> real \<Rightarrow> Mesh option" where
  "GenMeshCubicmap cubicmap cubeSize =
     (let mapWidth = int_of_unsigned (img_width cubicmap);
          mapHeight = int_of_unsigned (img_height cubicmap);
          maxTriangles = int_of_unsigned (img_width cubicmap * img_height cubicmap * 12)
      in if \<not> in_int_range (maxTriangles * 3) then None
         else do {
           st \<leftarrow> fold_option (gen_cell cubicmap cubeSize (nat (maxTriangles * 3)))
                   \<lparr>mapVertices = [], mapTexcoords = [], mapNormals = [],
                    vCounter = 0, tcCounter = 0, nCounter = 0\<rparr>
                   (map_cells (nat mapWidth) (nat mapHeight));
           if in_int_range (int (vCounter st) * 3)
              \<and> nCounter st \<le> vCounter st \<and> tcCounter st \<le> vCounter st
              \<and> vCounter st \<le> length (mapVertices st)
              \<and> nCounter st \<le> length (mapNormals st)
              \<and> tcCounter st \<le> length (mapTexcoords st)
           then Some \<lparr>vertexCount = vCounter st,
                      vertices = concat (map flat3 (take (vCounter st) (mapVertices st))),
                      texcoords = concat (map flat2 (take (tcCounter st) (mapTexcoords st))),
                      normals = concat (map flat3 (take (nCounter st) (mapNormals st)))\<rparr>
           else None
         })"

text \<open>The faces of the whole mesh, each with its cell, in the order of writing.\<close>

definition tag_faces :: "nat \<times> nat \<Rightarrow> face list \<Rightarrow> (nat \<times> nat \<times> face) list" where
  "tag_faces cell fs = map (\<lambda>f. (fst cell, snd cell, f)) fs"

definition emitted_faces :: "Image \<Rightarrow> (nat \<times> nat \<times> face) list option" where
  "emitted_faces cubicmap =
     fold_option (\<lambda>acc cell. map_option (\<lambda>fs. acc @ tag_faces cell fs) (cell_faces cubicmap (fst cell) (snd cell)))
       [] (map_cells (img_width cubicmap) (img_height cubicmap))"

subsection \<open>Vocabulary of the properties\<close>

text \<open>
  An image is well formed when its pixel array has \<open>width * height\<close> entries, as the
  array of \<^verbatim>\<open>GetImageData\<close> has, and three times the worst-case vertex count, the
  largest value an \<^verbatim>\<open>int\<close> expression of the generator can take, is at most
  \<^verbatim>\<open>INT_MAX\<close>.
\<close>

definition cubicmap_ok :: "Image \<Rightarrow> bool" where
  "cubicmap_ok cubicmap \<longleftrightarrow>
     length (img_pixels cubicmap) = img_width cubicmap * img_height cubicmap
     \<and> img_width cubicmap * img_height cubicmap * 12 * 3 * 3 \<le> INT_MAX"

text \<open>The pixel of the cell \<open>(i, j)\<close>, or \<open>None\<close> when the cell is outside the map.\<close>

definition cell_at :: "Image \<Rightarrow> int \<Rightarrow> int \<Rightarrow> Color option" where
  "cell_at cubicmap i j =
     (if 0 \<le> i \<and> i < int (img_width cubicmap) \<and> 0 \<le> j \<and> j < int (img_height cubicmap)
      then pixel_at (img_pixels cubicmap) (nat j * img_width cubicmap + nat i)
      else None)"



definition is_side :: "face \<Rightarrow> bool" where
  "is_side f \<longleftrightarrow> f = FrontF \<or> f = BackF \<or> f = RightF \<or> f = LeftF"

text \<open>A side face of a cell lies on the outer boundary of a \<open>W \<times> H\<close> map.\<close>

definition on_boundary :: "nat \<Rightarrow> nat \<Rightarrow> nat \<times> nat \<times> face \<Rightarrow> bool" where
  "on_boundary W H t =
     (case t of (x, z, f) \<Rightarrow>
        (f = FrontF \<and> z + 1 = H) \<or> (f = BackF \<and> z = 0)
        \<or> (f = RightF \<and> x + 1 = W) \<or> (f = LeftF \<and> x = 0))"

text \<open>The invariant of the scratch buffers: the three counters agree and count the slots written.\<close>

definition gen_inv :: "gen_state \<Rightarrow> bool" where
  "gen_inv st \<longleftrightarrow>
     vCounter st = length (mapVertices st) \<and> nCounter st = length (mapNormals st)
     \<and> tcCounter st = length (mapTexcoords st)
     \<and> nCounter st = vCounter st \<and> tcCounter st = vCounter st"

text \<open>
  The displacement in the horizontal plane (x, z) that the statement on camera movement
  assigns to a held key, for the yaw angle \<open>yaw\<close>: a step of length 1/20 along the
  rotated forward axis \<open>(- sin yaw, - cos yaw)\<close> or the rotated right axis
  \<open>(cos yaw, - sin yaw)\<close>.
\<close>

fun key_step :: "real \<Rightarrow> CameraMove \<Rightarrow> real \<times> real" where
  "key_step yaw MOVE_FRONT = (- sin yaw / 20, - cos yaw / 20)"
| "key_step yaw MOVE_BACK = (sin yaw / 20, cos yaw / 20)"
| "key_step yaw MOVE_RIGHT = (cos yaw / 20, - sin yaw / 20)"
| "key_step yaw MOVE_LEFT = (- cos yaw / 20, sin yaw / 20)"
| "key_step yaw MOVE_UP = (0, 0)"
| "key_step yaw MOVE_DOWN = (0, 0)"

text \<open>
  The relation between the scratch buffers and the faces written, after the cells \<open>p\<close>.
\<close>

definition faces_rel :: "real \<Rightarrow> (nat \<times> nat) list \<Rightarrow> gen_state \<Rightarrow> (nat \<times> nat \<times> face) list \<Rightarrow> bool" where
  "faces_rel s p st acc \<longleftrightarrow>
     gen_inv st \<and> vCounter st = 6 * length acc \<and> length acc \<le> 6 * length p
     \<and> mapVertices st = concat (map (\<lambda>(x, z, f). face_vertices s x z f) acc)
     \<and> mapNormals st = concat (map (\<lambda>(x, z, f). replicate 6 (face_normal f)) acc)
     \<and> mapTexcoords st = concat (map (\<lambda>(x, z, f). face_texcoords f) acc)"

subsection \<open>Example inputs\<close>

definition WHITE :: Color where
  "WHITE = \<lparr>col_r = 255, col_g = 255, col_b = 255, col_a = 255\<rparr>"

definition BLACK :: Color where
  "BLACK = \<lparr>col_r = 0, col_g = 0, col_b = 0, col_a = 255\<rparr>"

definition RED :: Color where
  "RED = \<lparr>col_r = 255, col_g = 0, col_b = 0, col_a = 255\<rparr>"

text \<open>A 3 by 3 map, all white but the centre.\<close>

definition grid3 :: Image where
  "grid3 = \<lparr>img_width = 3, img_height = 3,
             img_pixels = [WHITE, WHITE, WHITE, WHITE, BLACK, WHITE, WHITE, WHITE, WHITE]\<rparr>"

text \<open>A map of width 1 and height 2: an open cell \<open>(0, 0)\<close> above a wall cell \<open>(0, 1)\<close>.\<close>

definition tall_map :: Image where
  "tall_map = \<lparr>img_width = 1, img_height = 2, img_pixels = [BLACK, WHITE]\<rparr>"

text \<open>A map of width 2 and height 1.\<close>

definition wide_map :: Image where
  "wide_map = \<lparr>img_width = 2, img_height = 1, img_pixels = [BLACK, WHITE]\<rparr>"

text \<open>A map of one red pixel.\<close>

definition red_map :: Image where
  "red_map = \<lparr>img_width = 1, img_height = 1, img_pixels = [RED]\<rparr>"

text \<open>The image of a failed load: no pixels.\<close>

definition empty_map :: Image where
  "empty_map = \<lparr>img_width = 0, img_height = 0, img_pixels = []\<rparr>"

definition zero3 :: Vector3 where
  "zero3 = \<lparr>v3_x = 0, v3_y = 0, v3_z = 0\<rparr>"

definition zero2 :: Vector2 where
  "zero2 = \<lparr>v2_x = 0, v2_y = 0\<rparr>"

text \<open>The camera and the variables of \<^verbatim>\<open>UpdateCamera\<close> as the program initialises them.\<close>

definition camera_init :: Camera where
  "camera_init = \<lparr>position = \<lparr>v3_x = 1, v3_y = 1, v3_z = 1\<rparr>, target = zero3,
                   up = \<lparr>v3_x = 0, v3_y = 1, v3_z = 0\<rparr>, fovy = 60\<rparr>"

definition globals_init :: camera_globals where
  "globals_init = \<lparr>cameraAngle = zero2, swingCounter = 0, previousMousePosition = zero2\<rparr>"

text \<open>Inputs with the mouse at rest and one key held, or none.\<close>

definition hold_key :: "CameraMove \<Rightarrow> camera_input" where
  "hold_key k = \<lparr>mousePosition = zero2, direction = (\<lambda>m. m = k)\<rparr>"

definition no_key :: camera_input where
  "no_key = \<lparr>mousePosition = zero2, direction = (\<lambda>m. False)\<rparr>"

text \<open>A camera in the open cell of \<open>tall_map\<close>, 0.62 away from the centre of the wall cell.\<close>

definition camera_near_wall :: Camera where
  "camera_near_wall = \<lparr>position = \<lparr>v3_x = 0, v3_y = 6 / 10, v3_z = 38 / 100\<rparr>, target = zero3,
                        up = \<lparr>v3_x = 0, v3_y = 1, v3_z = 0\<rparr>, fovy = 60\<rparr>"

text \<open>A camera at the centre of the wall cell \<open>(0, 1)\<close> of \<open>tall_map\<close>.\<close>

definition camera_in_wall :: Camera where
  "camera_in_wall = \<lparr>position = \<lparr>v3_x = 0, v3_y = 6 / 10, v3_z = 1\<rparr>, target = zero3,
                      up = \<lparr>v3_x = 0, v3_y = 1, v3_z = 0\<rparr>, fovy = 60\<rparr>"

section \<open>Properties\<close>

lemma c_trunc_half_plus_nat: "c_trunc (1 / 2 + real n) = int n"
proof -
  have "\<lfloor>1 / 2 + real n\<rfloor> = int n" by linarith
  then show ?thesis by (simp add: c_trunc_def)
qed

lemma c_trunc_one: "c_trunc 1 = 1"
  by (simp add: c_trunc_def)

lemma c_div_one_two: "c_div 1 2 = 0"
  by (simp add: c_div_def)

lemma cell_rectangle_eq:
  "cell_rectangle x y = \<lparr>rec_x = int x, rec_y = int y, rec_width = 1, rec_height = 1\<rparr>"
  by (simp add: cell_rectangle_def mapPosition_def c_trunc_half_plus_nat c_trunc_one)

lemma cell_rectangle_center:
  "recCenterX (cell_rectangle x y) = int x" "recCenterY (cell_rectangle x y) = int y"
  by (simp_all add: cell_rectangle_eq recCenterX_def recCenterY_def c_div_one_two)

lemma cell_rectangle_size:
  "rec_width (cell_rectangle x y) = 1" "rec_height (cell_rectangle x y) = 1"
  by (simp_all add: cell_rectangle_eq)

subsection \<open>Rounding to binary32\<close>

lemma rne_of_int: "rne (of_int n) = n"
  by (simp add: rne_def)

lemma rne_bounds: "\<lfloor>y\<rfloor> \<le> rne y" "rne y \<le> \<lfloor>y\<rfloor> + 1"
  by (simp_all add: rne_def Let_def)

lemma rne_mono:
  assumes "y \<le> y'"
  shows "rne y \<le> rne y'"
proof (cases "\<lfloor>y\<rfloor> = \<lfloor>y'\<rfloor>")
  case True
  then show ?thesis using assms by (auto simp add: rne_def Let_def)
next
  case False
  with assms have "\<lfloor>y\<rfloor> < \<lfloor>y'\<rfloor>" using floor_mono [OF assms] by linarith
  then show ?thesis using rne_bounds(2) [of y] rne_bounds(1) [of y'] by linarith
qed

lemma fexp_search_char:
  assumes "p = 2 powi (int n - 126)"
  shows "- 126 \<le> fexp_search n p a \<and> fexp_search n p a \<le> int n - 126
         \<and> (fexp_search n p a = - 126 \<or> 2 powi (fexp_search n p a) \<le> a)
         \<and> (fexp_search n p a = int n - 126 \<or> a < 2 powi (fexp_search n p a + 1))"
  using assms
proof (induction n arbitrary: p)
  case 0
  then show ?case by simp
next
  case (Suc n)
  have p: "p = 2 powi (int n - 125)" using Suc.prems by (simp add: algebra_simps)
  show ?case
  proof (cases "p \<le> a")
    case True
    then show ?thesis using p by simp
  next
    case False
    have half: "p / 2 = 2 powi (int n - 126)"
    proof -
      have "(2::real) powi (int n - 125) = 2 powi ((int n - 126) + 1)"
        by (rule arg_cong [where f = "power_int 2"]) simp
      also have "\<dots> = 2 powi (int n - 126) * 2" by (rule power_int_add_1) simp
      finally show ?thesis using p by simp
    qed
    from Suc.IH [OF half, of ] have ih:
      "- 126 \<le> fexp_search n (p / 2) a" "fexp_search n (p / 2) a \<le> int n - 126"
      "fexp_search n (p / 2) a = - 126 \<or> 2 powi (fexp_search n (p / 2) a) \<le> a"
      "fexp_search n (p / 2) a = int n - 126 \<or> a < 2 powi (fexp_search n (p / 2) a + 1)"
      by simp_all
    have lt: "a < 2 powi (fexp_search n (p / 2) a + 1)"
    proof (cases "fexp_search n (p / 2) a = int n - 126")
      case True
      then have e1: "fexp_search n (p / 2) a + 1 = int n - 125" by simp
      from \<open>\<not> p \<le> a\<close> have "a < p" by simp
      then have "a < 2 powi (int n - 125)" by (simp only: p)
      then show ?thesis by (simp only: e1)
    next
      case False
      then show ?thesis using ih(4) by simp
    qed
    show ?thesis using False ih lt by simp
  qed
qed

lemma fexp_char:
  "- 126 \<le> fexp a" "fexp a \<le> 127"
  "fexp a = - 126 \<or> 2 powi (fexp a) \<le> a"
  "fexp a = 127 \<or> a < 2 powi (fexp a + 1)"
  using fexp_search_char [of "2 ^ 127" 253 a] by (simp_all add: fexp_def)

lemma fexp_mono:
  assumes "a \<le> b"
  shows "fexp a \<le> fexp b"
proof (rule ccontr)
  assume "\<not> fexp a \<le> fexp b"
  then have lt: "fexp b < fexp a" by simp
  with fexp_char(1) [of b] have "fexp a \<noteq> - 126" by linarith
  with fexp_char(3) [of a] have lo: "2 powi (fexp a) \<le> a" by simp
  from lt fexp_char(2) [of a] have "fexp b \<noteq> 127" by linarith
  with fexp_char(4) [of b] have hi: "b < 2 powi (fexp b + 1)" by simp
  from lt have "fexp b + 1 \<le> fexp a" by simp
  then have "(2::real) powi (fexp b + 1) \<le> 2 powi (fexp a)"
    by (intro power_int_increasing) simp_all
  with lo hi assms show False by linarith
qed

lemma fexp_unique:
  assumes "- 126 \<le> e" "e \<le> 127" "e = - 126 \<or> 2 powi e \<le> a" "e = 127 \<or> a < 2 powi (e + 1)"
  shows "fexp a = e"
proof (rule antisym)
  show "fexp a \<le> e"
  proof (rule ccontr)
    assume "\<not> fexp a \<le> e"
    then have lt: "e < fexp a" by simp
    with assms(1) have "fexp a \<noteq> - 126" by linarith
    with fexp_char(3) [of a] have lo: "2 powi (fexp a) \<le> a" by simp
    from lt fexp_char(2) [of a] have "e \<noteq> 127" by linarith
    with assms(4) have hi: "a < 2 powi (e + 1)" by simp
    from lt have "e + 1 \<le> fexp a" by simp
    then have "(2::real) powi (e + 1) \<le> 2 powi (fexp a)"
      by (intro power_int_increasing) simp_all
    with lo hi show False by linarith
  qed
  show "e \<le> fexp a"
  proof (rule ccontr)
    assume "\<not> e \<le> fexp a"
    then have lt: "fexp a < e" by simp
    with fexp_char(1) [of a] have "e \<noteq> - 126" by linarith
    with assms(3) have lo: "2 powi e \<le> a" by simp
    from lt assms(2) have "fexp a \<noteq> 127" by linarith
    with fexp_char(4) [of a] have hi: "a < 2 powi (fexp a + 1)" by simp
    from lt have "fexp a + 1 \<le> e" by simp
    then have "(2::real) powi (fexp a + 1) \<le> 2 powi e"
      by (intro power_int_increasing) simp_all
    with lo hi show False by linarith
  qed
qed

lemma fl32_mag_nonneg:
  assumes "0 \<le> a"
  shows "0 \<le> fl32_mag a"
proof -
  have "0 \<le> a / 2 powi (fexp a - 23)" using assms by simp
  from rne_mono [OF this] have "0 \<le> rne (a / 2 powi (fexp a - 23))"
    using rne_of_int [of 0] by simp
  then show ?thesis by (simp add: fl32_mag_def Let_def)
qed

lemma fl32_mag_mono:
  assumes "0 \<le> a" "a \<le> b"
  shows "fl32_mag a \<le> fl32_mag b"
proof (cases "fexp a = fexp b")
  case True
  have "a / 2 powi (fexp b - 23) \<le> b / 2 powi (fexp b - 23)"
    using assms(2) by (simp add: divide_right_mono)
  from rne_mono [OF this] show ?thesis
    by (simp add: fl32_mag_def Let_def True)
next
  case False
  with fexp_mono [OF assms(2)] have lt: "fexp a < fexp b" by simp
  let ?qa = "(2::real) powi (fexp a - 23)" and ?qb = "(2::real) powi (fexp b - 23)"
  have qa: "0 < ?qa" and qb: "0 < ?qb" by simp_all
  from lt fexp_char(1) [of a] have "fexp b \<noteq> - 126" by linarith
  with fexp_char(3) [of b] have lo: "2 powi (fexp b) \<le> b" by simp
  from lt fexp_char(2) [of b] have "fexp a \<noteq> 127" by linarith
  with fexp_char(4) [of a] have hi: "a < 2 powi (fexp a + 1)" by simp
  have ea: "(2::real) powi (fexp a + 1) = ?qa * 2 ^ 24"
  proof -
    have "(2::real) powi (fexp a + 1) = 2 powi ((fexp a - 23) + 24)"
      by (rule arg_cong [where f = "power_int 2"]) simp
    also have "\<dots> = ?qa * 2 powi 24" by (rule power_int_add) simp
    finally show ?thesis by simp
  qed
  have eb: "(2::real) powi (fexp b) = ?qb * 2 ^ 23"
  proof -
    have "(2::real) powi (fexp b) = 2 powi ((fexp b - 23) + 23)"
      by (rule arg_cong [where f = "power_int 2"]) simp
    also have "\<dots> = ?qb * 2 powi 23" by (rule power_int_add) simp
    finally show ?thesis by simp
  qed
  have "a / ?qa \<le> of_int (2 ^ 24)"
    using hi ea qa by (simp add: field_simps)
  from rne_mono [OF this] have "rne (a / ?qa) \<le> 2 ^ 24" by (simp only: rne_of_int)
  then have "of_int (rne (a / ?qa)) \<le> (2 ^ 24 :: real)"
    by (metis of_int_le_iff of_int_numeral of_int_power)
  then have up: "fl32_mag a \<le> 2 powi (fexp a + 1)"
    unfolding ea fl32_mag_def Let_def using qa by simp
  have "of_int (2 ^ 23) \<le> b / ?qb"
    using lo eb qb by (simp add: field_simps)
  from rne_mono [OF this] have "2 ^ 23 \<le> rne (b / ?qb)" by (simp only: rne_of_int)
  then have "(2 ^ 23 :: real) \<le> of_int (rne (b / ?qb))"
    by (metis of_int_le_iff of_int_numeral of_int_power)
  then have down: "2 powi (fexp b) \<le> fl32_mag b"
    unfolding eb fl32_mag_def Let_def using qb by simp
  from lt have "fexp a + 1 \<le> fexp b" by simp
  then have "(2::real) powi (fexp a + 1) \<le> 2 powi (fexp b)"
    by (intro power_int_increasing) simp_all
  with up down show ?thesis by linarith
qed

lemma fl32_nonneg: "0 \<le> v \<Longrightarrow> 0 \<le> fl32 v"
  by (simp add: fl32_def fl32_mag_nonneg)

lemma fl32_mono:
  assumes "0 \<le> a" "a \<le> b"
  shows "fl32 a \<le> fl32 b"
  using assms fl32_mag_mono [OF assms] by (simp add: fl32_def)

lemma fl32_abs: "\<bar>fl32 v\<bar> = fl32 \<bar>v\<bar>"
proof (cases "v < 0")
  case True
  then have "0 \<le> fl32_mag (- v)" by (intro fl32_mag_nonneg) simp
  with True show ?thesis by (simp add: fl32_def)
next
  case False
  then have "0 \<le> fl32_mag v" by (intro fl32_mag_nonneg) simp
  with False show ?thesis by (simp add: fl32_def)
qed

lemma fl32_mag_at:
  assumes "- 126 \<le> e" "e \<le> 127" "e = - 126 \<or> 2 powi e \<le> a" "e = 127 \<or> a < 2 powi (e + 1)"
    and "q = 2 powi (e - 23)"
  shows "fl32_mag a = q * of_int (rne (a / q))"
  using fexp_unique [OF assms(1-4)] assms(5) by (simp add: fl32_mag_def Let_def)

lemma fl32_zero: "fl32 0 = 0"
  by (simp add: fl32_def fl32_mag_def rne_def)

lemma fl32_tenth: "fl32 (1 / 10) = 13421773 / 134217728"
  using fl32_mag_at [of "- 4" "1 / 10" "1 / 134217728"]
  by (simp add: fl32_def rne_def)

lemma fl32_one: "fl32 1 = 1"
  using fl32_mag_at [of 0 1 "1 / 8388608"]
  by (simp add: fl32_def rne_def)

lemma fl32_half: "fl32 (1 / 2) = 1 / 2"
  using fl32_mag_at [of "- 1" "1 / 2" "1 / 16777216"]
  by (simp add: fl32_def rne_def)

lemma fl32_two: "fl32 2 = 2"
  using fl32_mag_at [of 1 2 "1 / 4194304"]
  by (simp add: fl32_def rne_def)

lemma fl32_three: "fl32 3 = 3"
  using fl32_mag_at [of 1 3 "1 / 4194304"]
  by (simp add: fl32_def rne_def)

lemma fl32_three_halves: "fl32 (3 / 2) = 3 / 2"
  using fl32_mag_at [of 0 "3 / 2" "1 / 8388608"]
  by (simp add: fl32_def rne_def)

lemma fl32_five_halves: "fl32 (5 / 2) = 5 / 2"
  using fl32_mag_at [of 1 "5 / 2" "1 / 4194304"]
  by (simp add: fl32_def rne_def)

lemma fl32_minus_half: "fl32 (- (1 / 2)) = - (1 / 2)"
  using fl32_mag_at [of "- 1" "1 / 2" "1 / 16777216"]
  by (simp add: fl32_def rne_def)

lemma fl32_six_tenths_float: "fl32 (5033165 / 8388608) = 5033165 / 8388608"
  using fl32_mag_at [of "- 1" "5033165 / 8388608" "1 / 16777216"]
  by (simp add: fl32_def rne_def)

lemma fl32_057: "fl32 (57 / 100) = 9563013 / 16777216"
  using fl32_mag_at [of "- 1" "57 / 100" "1 / 16777216"]
  by (simp add: fl32_def rne_def)

lemma fl32_062: "fl32 (31 / 50) = 5200937 / 8388608"
  using fl32_mag_at [of "- 1" "31 / 50" "1 / 16777216"]
  by (simp add: fl32_def rne_def)

lemma playerRadius_float: "playerRadius = fl32 (1 / 10)" "fl32 playerRadius = playerRadius"
proof -
  show "playerRadius = fl32 (1 / 10)" by (simp add: playerRadius_def fl32_tenth)
  show "fl32 playerRadius = playerRadius"
    using fl32_mag_at [of "- 4" "13421773 / 134217728" "1 / 134217728"]
    by (simp add: playerRadius_def fl32_def rne_def)
qed

lemma player_threshold: "fl32 (1 / 2 + playerRadius) = 5033165 / 8388608"
proof -
  have sum: "1 / 2 + playerRadius = 80530637 / 134217728" by (simp add: playerRadius_def)
  have "fl32 (80530637 / 134217728) = 5033165 / 8388608"
    using fl32_mag_at [of "- 1" "80530637 / 134217728" "1 / 16777216"]
    by (simp add: fl32_def rne_def)
  then show ?thesis by (simp only: sum)
qed

text \<open>
  The test on a rectangle of width 1 and height 1: the half-extents are exactly 1/2.
\<close>

lemma CheckCollisionCircleRec_unit:
  "CheckCollisionCircleRec c radius \<lparr>rec_x = a, rec_y = b, rec_width = 1, rec_height = 1\<rparr> =
     (let dx = fl32 \<bar>v2_x c - fl32 (real_of_int a)\<bar>;
          dy = fl32 \<bar>v2_y c - fl32 (real_of_int b)\<bar>
      in if dx > fl32 (1 / 2 + radius) then False
         else if dy > fl32 (1 / 2 + radius) then False
         else if dx \<le> 1 / 2 then True
         else if dy \<le> 1 / 2 then True
         else le_inf (add_inf (fl32_inf (fl32 (dx - 1 / 2) * fl32 (dx - 1 / 2)))
                              (fl32_inf (fl32 (dy - 1 / 2) * fl32 (dy - 1 / 2))))
                     (fl32_inf (radius * radius)))"
  by (simp add: CheckCollisionCircleRec_def recCenterX_def recCenterY_def c_div_one_two
      fl32_one fl32_half fl32_abs Let_def)

lemma CheckCollisionCircleRec_aligned:
  assumes "0 < radius"
  shows "CheckCollisionCircleRec \<lparr>v2_x = cx, v2_y = fl32 (real_of_int b)\<rparr> radius
            \<lparr>rec_x = a, rec_y = b, rec_width = 1, rec_height = 1\<rparr>
         \<longleftrightarrow> fl32 \<bar>cx - fl32 (real_of_int a)\<bar> \<le> fl32 (1 / 2 + radius)"
proof -
  have "0 \<le> fl32 (1 / 2 + radius)" using assms by (intro fl32_nonneg) simp
  then show ?thesis
    by (auto simp add: CheckCollisionCircleRec_unit fl32_zero Let_def)
qed

subsection \<open>The overlap test on a unit square\<close>

text \<open>
  Claim C1, as amended. On a rectangle of width 1 and height 1 at \<open>(a, b)\<close>, measured
  from the centre that \<^verbatim>\<open>CheckCollisionCircleRec\<close> computes for it (\<^verbatim>\<open>rec.x + rec.width/2\<close>
  in \<^verbatim>\<open>int\<close> arithmetic, so the point \<open>(a, b)\<close> converted to \<^verbatim>\<open>float\<close>; for the
  rectangle of the cell \<open>(x, y)\<close> of the main loop this is the point \<open>(x, y)\<close>) and with
  the half-width 1/2: a circle of positive radius centred at the centre collides. For a
  circle level with the centre on y, the test compares the rounded distance along x
  with the rounded sum \<open>t\<close> of the half-width and the radius. So the circle collides
  when its distance is at most half-width + radius, the tie included; it does not
  collide when its distance is at least some \<^verbatim>\<open>float\<close> \<open>F\<close> above \<open>t\<close>; for the distances
  between, which the two roundings do not separate, it collides.
\<close>

theorem CheckCollisionCircleRec_unit_square:
  assumes rad: "0 < radius"
  shows "(let rec = \<lparr>rec_x = a, rec_y = b, rec_width = 1, rec_height = 1\<rparr>;
              X = fl32 (real_of_int a); Y = fl32 (real_of_int b);
              t = fl32 (1 / 2 + radius)
          in CheckCollisionCircleRec \<lparr>v2_x = X, v2_y = Y\<rparr> radius rec
             \<and> (CheckCollisionCircleRec \<lparr>v2_x = cx, v2_y = Y\<rparr> radius rec \<longleftrightarrow> fl32 \<bar>cx - X\<bar> \<le> t)
             \<and> (\<bar>cx - X\<bar> \<le> 1 / 2 + radius
                  \<longrightarrow> CheckCollisionCircleRec \<lparr>v2_x = cx, v2_y = Y\<rparr> radius rec)
             \<and> (fl32 F = F \<and> t < F \<and> F \<le> \<bar>cx - X\<bar>
                  \<longrightarrow> \<not> CheckCollisionCircleRec \<lparr>v2_x = cx, v2_y = Y\<rparr> radius rec))"
proof -
  let ?X = "fl32 (real_of_int a)" and ?t = "fl32 (1 / 2 + radius)"
  have t0: "0 \<le> ?t" using rad by (intro fl32_nonneg) simp
  have centre: "fl32 \<bar>?X - ?X\<bar> \<le> ?t" using t0 by (simp add: fl32_zero)
  have near: "fl32 \<bar>cx - ?X\<bar> \<le> ?t" if "\<bar>cx - ?X\<bar> \<le> 1 / 2 + radius"
    using that by (intro fl32_mono) simp_all
  have far: "\<not> fl32 \<bar>cx - ?X\<bar> \<le> ?t" if "fl32 F = F" "?t < F" "F \<le> \<bar>cx - ?X\<bar>"
  proof -
    from t0 that(2) have "0 \<le> F" by linarith
    from fl32_mono [OF this that(3)] that(1) have "F \<le> fl32 \<bar>cx - ?X\<bar>" by simp
    with that(2) show ?thesis by linarith
  qed
  show ?thesis
    unfolding Let_def CheckCollisionCircleRec_aligned [OF rad]
    using centre near far by blast
qed


theorem CheckCollisionCircleRec_unit_square_witness:
  "0 < playerRadius
   \<and> cell_rectangle 2 3 = \<lparr>rec_x = 2, rec_y = 3, rec_width = 1, rec_height = 1\<rparr>
   \<and> fl32 2 = 2 \<and> fl32 3 = 3
   \<and> CheckCollisionCircleRec \<lparr>v2_x = 2, v2_y = 3\<rparr> playerRadius (cell_rectangle 2 3)
   \<and> \<bar>5 / 2 - 2\<bar> \<le> 1 / 2 + playerRadius
   \<and> CheckCollisionCircleRec \<lparr>v2_x = 5 / 2, v2_y = 3\<rparr> playerRadius (cell_rectangle 2 3)
   \<and> fl32 1 = 1 \<and> fl32 (1 / 2 + playerRadius) < 1 \<and> 1 \<le> \<bar>3 - 2 :: real\<bar>
   \<and> \<not> CheckCollisionCircleRec \<lparr>v2_x = 3, v2_y = 3\<rparr> playerRadius (cell_rectangle 2 3)"
proof -
  have r: "0 < playerRadius" by (simp add: playerRadius_def)
  have rect: "cell_rectangle 2 3 = \<lparr>rec_x = 2, rec_y = 3, rec_width = 1, rec_height = 1\<rparr>"
    using cell_rectangle_eq [of 2 3] by simp
  have near: "\<bar>5 / 2 - 2\<bar> \<le> 1 / 2 + playerRadius" by (simp add: playerRadius_def)
  have thr: "fl32 (1 / 2 + playerRadius) < 1" by (simp add: player_threshold)
  from CheckCollisionCircleRec_unit_square [OF r, of 2 3 "5 / 2" 1]
    CheckCollisionCircleRec_unit_square [OF r, of 2 3 3 1]
    r rect near thr
  show ?thesis
    by (simp add: Let_def fl32_two fl32_three fl32_one fl32_half player_threshold)
qed


text \<open>
  The claim as stated fails: the rectangle at \<open>(0, 0)\<close>, the radius \<^verbatim>\<open>0.1f\<close> and a centre
  at half-width + radius + \<open>3 / 2^27\<close> along x, level on y. The centre and the radius are
  \<^verbatim>\<open>float\<close>s, the excess is positive, and the test returns true: the sum of the
  half-width and the radius rounds up to the distance.
\<close>

theorem CheckCollisionCircleRec_rounding_counterexample:
  "(0::real) < 3 / 2 ^ 27
   \<and> CheckCollisionCircleRec \<lparr>v2_x = 0 + (1 / 2 + playerRadius + 3 / 2 ^ 27), v2_y = 0\<rparr> playerRadius
        \<lparr>rec_x = 0, rec_y = 0, rec_width = 1, rec_height = 1\<rparr>
   \<and> fl32 (0 + (1 / 2 + playerRadius + 3 / 2 ^ 27)) = 0 + (1 / 2 + playerRadius + 3 / 2 ^ 27)
   \<and> fl32 playerRadius = playerRadius"
proof -
  have c: "0 + (1 / 2 + playerRadius + 3 / 2 ^ 27) = (5033165 / 8388608 :: real)"
    by (simp add: playerRadius_def)
  have hit: "CheckCollisionCircleRec \<lparr>v2_x = 5033165 / 8388608, v2_y = 0\<rparr> playerRadius
        \<lparr>rec_x = 0, rec_y = 0, rec_width = 1, rec_height = 1\<rparr>"
    by (simp add: CheckCollisionCircleRec_unit Let_def fl32_zero fl32_six_tenths_float
        player_threshold)
  show ?thesis
    unfolding c using hit by (simp add: fl32_six_tenths_float playerRadius_float(2))
qed


lemma CheckCollisionCircleRec_in_wall:
  "CheckCollisionCircleRec \<lparr>v2_x = 0, v2_y = 43 / 100\<rparr> playerRadius (cell_rectangle 0 1)"
  "\<not> CheckCollisionCircleRec \<lparr>v2_x = 0, v2_y = 38 / 100\<rparr> playerRadius (cell_rectangle 0 1)"
  "CheckCollisionCircleRec \<lparr>v2_x = 0, v2_y = 1\<rparr> playerRadius (cell_rectangle 0 1)"
  "CheckCollisionCircleRec \<lparr>v2_x = 0, v2_y = 0\<rparr> playerRadius (cell_rectangle 0 0)"
  by (simp_all add: cell_rectangle_eq CheckCollisionCircleRec_unit Let_def fl32_zero fl32_one
      fl32_057 fl32_062 player_threshold)


subsection \<open>The mesh generator\<close>

lemma length_map_cells: "length (map_cells W H) = W * H"
  by (simp add: map_cells_def length_concat comp_def sum_list_triv)

lemma set_map_cells: "set (map_cells W H) = {(x, z). x < W \<and> z < H}"
  by (auto simp add: map_cells_def)

lemma cell_index_less:
  fixes x z W H :: nat
  assumes "x < W" "z < H"
  shows "z * W + x < W * H"
proof -
  have "z * W + x < z * W + W" using assms by simp
  also have "\<dots> = (z + 1) * W" by simp
  also have "\<dots> \<le> H * W" using assms by (intro mult_le_mono1) simp
  finally show ?thesis by (simp add: mult.commute)
qed

lemma pixel_at_cell:
  assumes "length ps = W * H" "x < W" "z < H"
  shows "pixel_at ps (z * W + x) = Some (ps ! (z * W + x))"
  using cell_index_less [OF assms(2,3)] assms(1) by (simp add: pixel_at_def)

lemma cell_at_nat:
  "cell_at m (int x) (int z) =
     (if x < img_width m \<and> z < img_height m then pixel_at (img_pixels m) (z * img_width m + x) else None)"
  by (simp add: cell_at_def)

lemma side_test_Some:
  assumes "length (img_pixels m) = img_width m * img_height m"
    and "inside \<Longrightarrow> i = z' * img_width m + x' \<and> x' < img_width m \<and> z' < img_height m"
  shows "side_test m inside i edge =
           Some (if inside then is_black (img_pixels m ! i) \<or> edge else edge)"
proof (cases inside)
  case True
  with assms(2) have i: "i = z' * img_width m + x'" "x' < img_width m" "z' < img_height m" by simp_all
  show ?thesis using True pixel_at_cell [OF assms(1) i(2,3)] i(1)
    by (simp add: side_test_def)
next
  case False
  then show ?thesis by (simp add: side_test_def)
qed


lemma cell_faces_ok:
  assumes wf: "length (img_pixels m) = img_width m * img_height m"
    and x: "x < img_width m" and z: "z < img_height m"
  shows "cell_faces m x z =
     Some (let W = img_width m; H = img_height m; ps = img_pixels m; c = ps ! (z * W + x) in
           if is_white c then
             [TopF, BottomF]
             @ (if z + 1 = H \<or> is_black (ps ! ((z + 1) * W + x)) then [FrontF] else [])
             @ (if z = 0 \<or> is_black (ps ! ((z - 1) * W + x)) then [BackF] else [])
             @ (if x + 1 = W \<or> is_black (ps ! (z * W + (x + 1))) then [RightF] else [])
             @ (if x = 0 \<or> is_black (ps ! (z * W + (x - 1))) then [LeftF] else [])
           else if is_black c then [RoofF, FloorF] else [])"
proof -
  have f: "side_test m (z < img_height m - 1) ((z + 1) * img_width m + x) (z = img_height m - 1)
             = Some (z + 1 = img_height m \<or> is_black (img_pixels m ! ((z + 1) * img_width m + x)))"
    using z by (subst side_test_Some [OF wf, where x' = x and z' = "z + 1"]) (auto simp: x)
  have b: "side_test m (z > 0) ((z - 1) * img_width m + x) (z = 0)
             = Some (z = 0 \<or> is_black (img_pixels m ! ((z - 1) * img_width m + x)))"
    using z by (subst side_test_Some [OF wf, where x' = x and z' = "z - 1"]) (auto simp: x)
  have r: "side_test m (x < img_width m - 1) (z * img_width m + (x + 1)) (x = img_width m - 1)
             = Some (x + 1 = img_width m \<or> is_black (img_pixels m ! (z * img_width m + (x + 1))))"
    using x by (subst side_test_Some [OF wf, where x' = "x + 1" and z' = z]) (auto simp: z)
  have l: "side_test m (x > 0) (z * img_width m + (x - 1)) (x = 0)
             = Some (x = 0 \<or> is_black (img_pixels m ! (z * img_width m + (x - 1))))"
    using x by (subst side_test_Some [OF wf, where x' = "x - 1" and z' = z]) (auto simp: z)
  show ?thesis
    unfolding cell_faces_def f b r l pixel_at_cell [OF wf x z]
    by (simp add: Let_def)
qed


lemma length_cell_faces:
  assumes "length (img_pixels m) = img_width m * img_height m" "x < img_width m" "z < img_height m"
  shows "\<exists>fs. cell_faces m x z = Some fs \<and> length fs \<le> 6"
  unfolding cell_faces_ok [OF assms] by (simp add: Let_def)

lemma length_face_vertices: "length (face_vertices s x z f) = 6"
  by (cases f) simp_all

lemma length_face_texcoords: "length (face_texcoords f) = 6"
  by (cases f) simp_all

lemma write6_append: "k = length buf \<Longrightarrow> k + 6 \<le> cap \<Longrightarrow> write6 cap buf k es = Some (buf @ es)"
  by (simp add: write6_def)

lemma emit_face_ok:
  assumes "gen_inv st" "vCounter st + 6 \<le> cap"
  shows "emit_face cap s x z st f =
     Some \<lparr>mapVertices = mapVertices st @ face_vertices s x z f,
           mapTexcoords = mapTexcoords st @ face_texcoords f,
           mapNormals = mapNormals st @ replicate 6 (face_normal f),
           vCounter = vCounter st + 6, tcCounter = tcCounter st + 6, nCounter = nCounter st + 6\<rparr>"
proof -
  from assms have v: "write6 cap (mapVertices st) (vCounter st) (face_vertices s x z f)
      = Some (mapVertices st @ face_vertices s x z f)"
    by (intro write6_append) (simp_all add: gen_inv_def)
  from assms have n: "write6 cap (mapNormals st) (nCounter st) (replicate 6 (face_normal f))
      = Some (mapNormals st @ replicate 6 (face_normal f))"
    by (intro write6_append) (simp_all add: gen_inv_def)
  from assms have t: "write6 cap (mapTexcoords st) (tcCounter st) (face_texcoords f)
      = Some (mapTexcoords st @ face_texcoords f)"
    by (intro write6_append) (simp_all add: gen_inv_def)
  show ?thesis unfolding emit_face_def v n t by simp
qed

lemma emit_faces_ok:
  assumes "gen_inv st" "vCounter st + 6 * length fs \<le> cap"
  shows "\<exists>st'. fold_option (emit_face cap s x z) st fs = Some st' \<and> gen_inv st'
           \<and> vCounter st' = vCounter st + 6 * length fs
           \<and> mapVertices st' = mapVertices st @ concat (map (face_vertices s x z) fs)
           \<and> mapNormals st' = mapNormals st @ concat (map (\<lambda>f. replicate 6 (face_normal f)) fs)
           \<and> mapTexcoords st' = mapTexcoords st @ concat (map face_texcoords fs)"
  using assms
proof (induction fs arbitrary: st)
  case Nil
  then show ?case by simp
next
  case (Cons f fs)
  let ?st1 = "\<lparr>mapVertices = mapVertices st @ face_vertices s x z f,
           mapTexcoords = mapTexcoords st @ face_texcoords f,
           mapNormals = mapNormals st @ replicate 6 (face_normal f),
           vCounter = vCounter st + 6, tcCounter = tcCounter st + 6, nCounter = nCounter st + 6\<rparr>"
  from Cons.prems have room: "vCounter st + 6 \<le> cap" by simp
  have step: "emit_face cap s x z st f = Some ?st1"
    by (rule emit_face_ok [OF Cons.prems(1) room])
  have inv1: "gen_inv ?st1"
    using Cons.prems(1) by (simp add: gen_inv_def length_face_vertices length_face_texcoords)
  have room1: "vCounter ?st1 + 6 * length fs \<le> cap"
    using Cons.prems(2) by simp
  from Cons.IH [OF inv1 room1] obtain st' where
    st': "fold_option (emit_face cap s x z) ?st1 fs = Some st'" "gen_inv st'"
      "vCounter st' = vCounter ?st1 + 6 * length fs"
      "mapVertices st' = mapVertices ?st1 @ concat (map (face_vertices s x z) fs)"
      "mapNormals st' = mapNormals ?st1 @ concat (map (\<lambda>f. replicate 6 (face_normal f)) fs)"
      "mapTexcoords st' = mapTexcoords ?st1 @ concat (map face_texcoords fs)"
    by blast
  show ?case
    using step st' by simp
qed

lemma fold_option_lockstep:
  assumes "R pre s t"
    and "\<And>p c rest s t. pre @ cs = p @ c # rest \<Longrightarrow> R p s t \<Longrightarrow>
           \<exists>s' t'. f s c = Some s' \<and> g t c = Some t' \<and> R (p @ [c]) s' t'"
  shows "\<exists>s' t'. fold_option f s cs = Some s' \<and> fold_option g t cs = Some t' \<and> R (pre @ cs) s' t'"
  using assms
proof (induction cs arbitrary: pre s t)
  case Nil
  then show ?case by simp
next
  case (Cons c cs)
  from Cons.prems(2) [of pre c cs s t] Cons.prems(1)
  obtain s1 t1 where s1: "f s c = Some s1" "g t c = Some t1" "R (pre @ [c]) s1 t1"
    by auto
  have "\<exists>s' t'. fold_option f s1 cs = Some s' \<and> fold_option g t1 cs = Some t' \<and> R ((pre @ [c]) @ cs) s' t'"
  proof (rule Cons.IH [OF s1(3)])
    fix p c' rest s t
    assume "(pre @ [c]) @ cs = p @ c' # rest" "R p s t"
    then show "\<exists>s' t'. f s c' = Some s' \<and> g t c' = Some t' \<and> R (p @ [c']) s' t'"
      using Cons.prems(2) [of p c' rest s t] by simp
  qed
  then show ?case using s1 by simp
qed


lemma gen_cell_step:
  assumes wf: "length (img_pixels m) = img_width m * img_height m"
    and cells: "map_cells (img_width m) (img_height m) = p @ c # rest"
    and rel: "faces_rel s p st acc"
  shows "\<exists>st' acc'. gen_cell m s (img_width m * img_height m * 12 * 3) st c = Some st'
           \<and> map_option (\<lambda>fs. acc @ tag_faces c fs) (cell_faces m (fst c) (snd c)) = Some acc'
           \<and> faces_rel s (p @ [c]) st' acc'"
proof -
  obtain x z where c: "c = (x, z)" by (cases c)
  have "c \<in> set (map_cells (img_width m) (img_height m))" using cells by simp
  then have xz: "x < img_width m" "z < img_height m" by (simp_all add: c set_map_cells)
  from length_cell_faces [OF wf xz] obtain fs where
    fs: "cell_faces m x z = Some fs" "length fs \<le> 6" by blast
  have "length (p @ c # rest) = img_width m * img_height m"
    using cells length_map_cells [of "img_width m" "img_height m"] by simp
  then have lp: "length p + 1 \<le> img_width m * img_height m" by simp
  from rel have inv: "gen_inv st" and vc: "vCounter st = 6 * length acc"
    and la: "length acc \<le> 6 * length p" by (simp_all add: faces_rel_def)
  have room: "vCounter st + 6 * length fs \<le> img_width m * img_height m * 12 * 3"
    using vc la fs(2) lp by linarith
  from emit_faces_ok [OF inv room, of s x z] obtain st' where
    st': "fold_option (emit_face (img_width m * img_height m * 12 * 3) s x z) st fs = Some st'"
      "gen_inv st'" "vCounter st' = vCounter st + 6 * length fs"
      "mapVertices st' = mapVertices st @ concat (map (face_vertices s x z) fs)"
      "mapNormals st' = mapNormals st @ concat (map (\<lambda>f. replicate 6 (face_normal f)) fs)"
      "mapTexcoords st' = mapTexcoords st @ concat (map face_texcoords fs)"
    by blast
  have g: "gen_cell m s (img_width m * img_height m * 12 * 3) st c = Some st'"
    using st'(1) by (simp add: gen_cell_def c fs(1))
  have r: "faces_rel s (p @ [c]) st' (acc @ tag_faces c fs)"
    using rel st'(2-) fs(2)
    by (simp add: faces_rel_def tag_faces_def c comp_def)
  show ?thesis using g r by (simp add: c fs(1))
qed

lemma gen_loop_faces:
  assumes wf: "length (img_pixels m) = img_width m * img_height m"
  shows "\<exists>st fs.
           fold_option (gen_cell m s (img_width m * img_height m * 12 * 3))
             \<lparr>mapVertices = [], mapTexcoords = [], mapNormals = [],
              vCounter = 0, tcCounter = 0, nCounter = 0\<rparr>
             (map_cells (img_width m) (img_height m)) = Some st
           \<and> emitted_faces m = Some fs
           \<and> faces_rel s (map_cells (img_width m) (img_height m)) st fs"
proof -
  let ?init = "\<lparr>mapVertices = [], mapTexcoords = [], mapNormals = [],
              vCounter = 0, tcCounter = 0, nCounter = 0\<rparr>"
  have init: "faces_rel s [] ?init []"
    by (simp add: faces_rel_def gen_inv_def)
  have "\<exists>st fs.
          fold_option (gen_cell m s (img_width m * img_height m * 12 * 3)) ?init
            (map_cells (img_width m) (img_height m)) = Some st
          \<and> fold_option (\<lambda>acc cell. map_option (\<lambda>fs. acc @ tag_faces cell fs)
                (cell_faces m (fst cell) (snd cell))) []
              (map_cells (img_width m) (img_height m)) = Some fs
          \<and> faces_rel s ([] @ map_cells (img_width m) (img_height m)) st fs"
  proof (rule fold_option_lockstep [where R = "faces_rel s", OF init])
    fix p c rest st acc
    assume "[] @ map_cells (img_width m) (img_height m) = p @ c # rest" "faces_rel s p st acc"
    then show "\<exists>st' acc'. gen_cell m s (img_width m * img_height m * 12 * 3) st c = Some st'
           \<and> map_option (\<lambda>fs. acc @ tag_faces c fs) (cell_faces m (fst c) (snd c)) = Some acc'
           \<and> faces_rel s (p @ [c]) st' acc'"
      using gen_cell_step [OF wf, of p c rest s st acc] by simp
  qed
  then show ?thesis by (simp add: emitted_faces_def)
qed


lemma map_cells_empty: "map_cells 0 H = []" "map_cells W 0 = []"
  by (simp_all add: map_cells_def)

lemma int_of_unsigned_small: "n \<le> INT_MAX \<Longrightarrow> int_of_unsigned n = int n"
  by (simp add: int_of_unsigned_def INT_MAX_def)

lemma in_int_range_nat:
  assumes "n * 3 \<le> INT_MAX"
  shows "in_int_range (int n * 3)"
proof -
  have "int (n * 3) \<le> int INT_MAX" using assms by (simp only: of_nat_le_iff)
  moreover have "int (n * 3) = int n * 3" by simp
  moreover have "0 \<le> int n * 3" by simp
  moreover have "- (2 ^ 31) \<le> (0::int)" by simp
  ultimately show ?thesis unfolding in_int_range_def by linarith
qed

lemma cubicmap_ok_bounds:
  assumes "cubicmap_ok m"
  shows "img_width m * img_height m * 12 \<le> INT_MAX"
    and "img_width m * img_height m * 12 * 3 \<le> INT_MAX"
    and "img_width m * img_height m * 108 \<le> INT_MAX"
  using assms by (simp_all add: cubicmap_ok_def)

lemma cubicmap_ok_cells:
  assumes ok: "cubicmap_ok m"
  shows "map_cells (nat (int_of_unsigned (img_width m))) (nat (int_of_unsigned (img_height m)))
         = map_cells (img_width m) (img_height m)"
proof (cases "img_width m = 0 \<or> img_height m = 0")
  case True
  then show ?thesis
    by (auto simp add: map_cells_empty int_of_unsigned_def)
next
  case False
  then have pos: "1 \<le> img_width m" "1 \<le> img_height m" by simp_all
  have "img_width m * 1 \<le> img_width m * img_height m" using pos(2) by (intro mult_le_mono2)
  moreover have "1 * img_height m \<le> img_width m * img_height m" using pos(1) by (intro mult_le_mono1)
  moreover have "img_width m * img_height m \<le> img_width m * img_height m * 12" by simp
  ultimately have "img_width m \<le> INT_MAX" "img_height m \<le> INT_MAX"
    using cubicmap_ok_bounds(1) [OF ok] by linarith+
  then show ?thesis by (simp add: int_of_unsigned_small)
qed

lemma GenMeshCubicmap_result:
  assumes ok: "cubicmap_ok m"
  shows "\<exists>fs. emitted_faces m = Some fs
           \<and> length fs \<le> 6 * (img_width m * img_height m)
           \<and> GenMeshCubicmap m s =
               Some \<lparr>vertexCount = 6 * length fs,
                     vertices = concat (map flat3 (concat (map (\<lambda>(x, z, f). face_vertices s x z f) fs))),
                     texcoords = concat (map flat2 (concat (map (\<lambda>(x, z, f). face_texcoords f) fs))),
                     normals = concat (map flat3 (concat (map (\<lambda>(x, z, f). replicate 6 (face_normal f)) fs)))\<rparr>"
proof -
  from ok have wf: "length (img_pixels m) = img_width m * img_height m"
    by (simp add: cubicmap_ok_def)
  from gen_loop_faces [OF wf, of s] obtain st fs where
    loop: "fold_option (gen_cell m s (img_width m * img_height m * 12 * 3))
             \<lparr>mapVertices = [], mapTexcoords = [], mapNormals = [],
              vCounter = 0, tcCounter = 0, nCounter = 0\<rparr>
             (map_cells (img_width m) (img_height m)) = Some st"
    and fs: "emitted_faces m = Some fs"
    and rel: "faces_rel s (map_cells (img_width m) (img_height m)) st fs"
    by blast
  from rel have inv: "gen_inv st" and vc: "vCounter st = 6 * length fs"
    and lf: "length fs \<le> 6 * (img_width m * img_height m)"
    and mv: "mapVertices st = concat (map (\<lambda>(x, z, f). face_vertices s x z f) fs)"
    and mn: "mapNormals st = concat (map (\<lambda>(x, z, f). replicate 6 (face_normal f)) fs)"
    and mt: "mapTexcoords st = concat (map (\<lambda>(x, z, f). face_texcoords f) fs)"
    by (simp_all add: faces_rel_def length_map_cells)
  from inv have cnt: "nCounter st = vCounter st" "tcCounter st = vCounter st"
    "vCounter st = length (mapVertices st)" "nCounter st = length (mapNormals st)"
    "tcCounter st = length (mapTexcoords st)"
    by (simp_all add: gen_inv_def)
  have tri: "int_of_unsigned (img_width m * img_height m * 12) = int (img_width m * img_height m * 12)"
    by (rule int_of_unsigned_small [OF cubicmap_ok_bounds(1) [OF ok]])
  have cap: "nat (int (img_width m * img_height m * 12) * 3) = img_width m * img_height m * 12 * 3"
    by (simp add: nat_mult_distrib)
  have capr: "in_int_range (int (img_width m * img_height m * 12) * 3)"
    by (rule in_int_range_nat [OF cubicmap_ok_bounds(2) [OF ok]])
  have "vCounter st * 3 \<le> img_width m * img_height m * 108" using vc lf by linarith
  with cubicmap_ok_bounds(3) [OF ok] have "vCounter st * 3 \<le> INT_MAX" by linarith
  then have vr: "in_int_range (int (vCounter st) * 3)"
    by (rule in_int_range_nat)
  have "GenMeshCubicmap m s =
          Some \<lparr>vertexCount = vCounter st,
                vertices = concat (map flat3 (take (vCounter st) (mapVertices st))),
                texcoords = concat (map flat2 (take (tcCounter st) (mapTexcoords st))),
                normals = concat (map flat3 (take (nCounter st) (mapNormals st)))\<rparr>"
    unfolding GenMeshCubicmap_def Let_def tri cap cubicmap_ok_cells [OF ok] loop
    using cnt capr vr by simp
  also have "take (vCounter st) (mapVertices st) = mapVertices st" using cnt by simp
  also have "take (tcCounter st) (mapTexcoords st) = mapTexcoords st" using cnt by simp
  also have "take (nCounter st) (mapNormals st) = mapNormals st" using cnt by simp
  finally show ?thesis using fs lf vc mv mn mt by simp
qed

lemma white_not_black: "is_white c \<Longrightarrow> \<not> is_black c"
  by (simp add: is_white_def is_black_def)

lemma cell_at_Some:
  assumes "cell_at m (int x) (int z) = Some c"
  shows "x < img_width m" "z < img_height m"
  using assms by (simp_all add: cell_at_nat split: if_splits)

lemma cell_at_pixel:
  assumes "length (img_pixels m) = img_width m * img_height m" "x < img_width m" "z < img_height m"
  shows "cell_at m (int x) (int z) = Some (img_pixels m ! (z * img_width m + x))"
  using assms by (simp add: cell_at_nat pixel_at_cell)









lemma fold_tag_concat:
  assumes "\<forall>c \<in> set cs. \<exists>fs. g c = Some fs"
  shows "fold_option (\<lambda>acc c. map_option (\<lambda>fs. acc @ tag_faces c fs) (g c)) acc cs
         = Some (acc @ concat (map (\<lambda>c. tag_faces c (the (g c))) cs))"
  using assms
proof (induction cs arbitrary: acc)
  case Nil
  then show ?case by simp
next
  case (Cons c cs)
  from Cons.prems obtain fs where fs: "g c = Some fs" by auto
  from Cons.prems have "\<forall>c \<in> set cs. \<exists>fs. g c = Some fs" by simp
  from Cons.IH [OF this, of "acc @ tag_faces c fs"] fs show ?case by simp
qed

lemma emitted_faces_concat:
  assumes wf: "length (img_pixels m) = img_width m * img_height m"
  shows "emitted_faces m =
           Some (concat (map (\<lambda>c. tag_faces c (the (cell_faces m (fst c) (snd c))))
                          (map_cells (img_width m) (img_height m))))"
proof -
  have "\<forall>c \<in> set (map_cells (img_width m) (img_height m)). \<exists>fs. cell_faces m (fst c) (snd c) = Some fs"
  proof
    fix c assume "c \<in> set (map_cells (img_width m) (img_height m))"
    then have "fst c < img_width m" "snd c < img_height m"
      by (auto simp add: set_map_cells)
    from length_cell_faces [OF wf this] show "\<exists>fs. cell_faces m (fst c) (snd c) = Some fs" by blast
  qed
  from fold_tag_concat [OF this, of "[]"] show ?thesis
    by (simp add: emitted_faces_def)
qed

lemma map_cells_Suc:
  "map_cells W (Suc H) = map_cells W H @ map (\<lambda>x. (x, H)) [0..<W]"
  by (simp add: map_cells_def)

lemma distinct_map_cells: "distinct (map_cells W H)"
proof (induction H)
  case 0
  then show ?case by (simp add: map_cells_def)
next
  case (Suc H)
  have row: "distinct (map (\<lambda>x. (x, H)) [0..<W])"
    by (simp add: distinct_map inj_on_def)
  have "set (map_cells W H) \<inter> set (map (\<lambda>x. (x, H)) [0..<W]) = {}"
    by (auto simp add: set_map_cells)
  with Suc row show ?case by (simp add: map_cells_Suc)
qed

lemma tagged_cell:
  assumes "t \<in> set (concat (map (\<lambda>c. tag_faces c (F c)) cs))"
  shows "(fst t, fst (snd t)) \<in> set cs"
  using assms by (auto simp add: tag_faces_def)

lemma length_flat3: "length (concat (map flat3 vs)) = 3 * length vs"
  by (induction vs) (simp_all add: flat3_def)

lemma length_flat2: "length (concat (map flat2 vs)) = 2 * length vs"
  by (induction vs) (simp_all add: flat2_def)

lemma length_face_lists:
  "length (concat (map (\<lambda>(x, z, f). face_vertices s x z f) fs)) = 6 * length fs"
  "length (concat (map (\<lambda>(x, z, f). replicate 6 (face_normal f)) fs)) = 6 * length fs"
  "length (concat (map (\<lambda>(x, z, f). face_texcoords f) fs)) = 6 * length fs"
  by (induction fs) (auto simp add: length_face_vertices length_face_texcoords)

lemma length_face_floats:
  "length (concat (map flat3 (concat (map (\<lambda>(x, z, f). face_vertices s x z f) fs)))) = 18 * length fs"
  "length (concat (map flat3 (concat (map (\<lambda>(x, z, f). replicate 6 (face_normal f)) fs)))) = 18 * length fs"
  by (simp_all add: length_flat3 length_face_lists)

text \<open>
  Claim C5. On a well-formed map, for a black cell \<open>(x, z)\<close>: \<^verbatim>\<open>GenMeshCubicmap\<close> returns
  a mesh whose faces are those written before the cell, the two faces of the cell, and
  those written after it; no other face of the mesh belongs to the cell, so no side face
  does. The two faces take 36 consecutive floats of \<open>vertices\<close>: two triangles at height
  \<^verbatim>\<open>h2\<close> (the ceiling), then two triangles at height 0 (the floor), over the square of
  the cell; their normals point down and up.
\<close>

theorem open_cell_faces:
  assumes ok: "cubicmap_ok m"
    and cell: "cell_at m (int x) (int z) = Some c" and black: "is_black c"
  shows "\<exists>mesh before after vpre vpost npre npost.
           GenMeshCubicmap m s = Some mesh
         \<and> emitted_faces m = Some (before @ [(x, z, RoofF), (x, z, FloorF)] @ after)
         \<and> (\<forall>t \<in> set (before @ after). (fst t, fst (snd t)) \<noteq> (x, z))
         \<and> vertexCount mesh = 6 * length before + 12 + 6 * length after
         \<and> length vpre = 18 * length before \<and> length vpost = 18 * length after
         \<and> length npre = 18 * length before \<and> length npost = 18 * length after
         \<and> (let x0 = fl32 (s * fl32 (fl32 (real x) - 1 / 2));
                 x1 = fl32 (s * fl32 (fl32 (real x) + 1 / 2));
                 z0 = fl32 (s * fl32 (fl32 (real z) - 1 / 2));
                 z1 = fl32 (s * fl32 (fl32 (real z) + 1 / 2))
             in vertices mesh =
                  vpre @ [x0, s, z0,  x1, s, z1,  x0, s, z1,  x0, s, z0,  x1, s, z0,  x1, s, z1,
                          x0, 0, z0,  x0, 0, z1,  x1, 0, z1,  x0, 0, z0,  x1, 0, z1,  x1, 0, z0]
                  @ vpost)
         \<and> normals mesh =
             npre @ concat (replicate 6 [0, - 1, 0]) @ concat (replicate 6 [0, 1, 0]) @ npost"
proof -
  from ok have wf: "length (img_pixels m) = img_width m * img_height m"
    by (simp add: cubicmap_ok_def)
  from cell have x: "x < img_width m" and z: "z < img_height m"
    by (rule cell_at_Some)+
  from cell cell_at_pixel [OF wf x z] have c: "img_pixels m ! (z * img_width m + x) = c"
    by simp
  from black have nw: "\<not> is_white c" using white_not_black by blast
  have faces: "cell_faces m x z = Some [RoofF, FloorF]"
    unfolding cell_faces_ok [OF wf x z] using c black nw by (simp add: Let_def)
  let ?F = "\<lambda>c. the (cell_faces m (fst c) (snd c))"
  let ?T = "\<lambda>cs. concat (map (\<lambda>c. tag_faces c (?F c)) cs)"
  let ?V = "\<lambda>fs. concat (map flat3 (concat (map (\<lambda>(x, z, f). face_vertices s x z f) fs)))"
  let ?N = "\<lambda>fs. concat (map flat3 (concat (map (\<lambda>(x, z, f). replicate 6 (face_normal f)) fs)))"
  have "(x, z) \<in> set (map_cells (img_width m) (img_height m))"
    using x z by (simp add: set_map_cells)
  then obtain p r where split: "map_cells (img_width m) (img_height m) = p @ (x, z) # r"
    by (auto simp add: in_set_conv_decomp)
  from distinct_map_cells [of "img_width m" "img_height m"] split
  have fresh: "(x, z) \<notin> set p" "(x, z) \<notin> set r" by simp_all
  have em: "emitted_faces m = Some (?T p @ [(x, z, RoofF), (x, z, FloorF)] @ ?T r)"
    unfolding emitted_faces_concat [OF wf] split by (simp add: faces tag_faces_def)
  have other: "\<forall>t \<in> set (?T p @ ?T r). (fst t, fst (snd t)) \<noteq> (x, z)"
  proof
    fix t assume "t \<in> set (?T p @ ?T r)"
    then have "t \<in> set (?T p) \<or> t \<in> set (?T r)" by simp
    then have "(fst t, fst (snd t)) \<in> set p \<or> (fst t, fst (snd t)) \<in> set r"
      using tagged_cell [of t ?F p] tagged_cell [of t ?F r] by blast
    with fresh show "(fst t, fst (snd t)) \<noteq> (x, z)" by metis
  qed
  from GenMeshCubicmap_result [OF ok, of s] em
  have mesh: "GenMeshCubicmap m s =
      Some \<lparr>vertexCount = 6 * length (?T p @ [(x, z, RoofF), (x, z, FloorF)] @ ?T r),
            vertices = ?V (?T p @ [(x, z, RoofF), (x, z, FloorF)] @ ?T r),
            texcoords = concat (map flat2 (concat (map (\<lambda>(x, z, f). face_texcoords f)
                          (?T p @ [(x, z, RoofF), (x, z, FloorF)] @ ?T r)))),
            normals = ?N (?T p @ [(x, z, RoofF), (x, z, FloorF)] @ ?T r)\<rparr>"
    by auto
  have vs: "?V (?T p @ [(x, z, RoofF), (x, z, FloorF)] @ ?T r)
      = ?V (?T p) @ concat (map flat3 (face_vertices s x z RoofF @ face_vertices s x z FloorF)) @ ?V (?T r)"
    by simp
  have ns: "?N (?T p @ [(x, z, RoofF), (x, z, FloorF)] @ ?T r)
      = ?N (?T p) @ concat (replicate 6 [0, - 1, 0]) @ concat (replicate 6 [0, 1, 0]) @ ?N (?T r)"
    by (simp add: flat3_def n3_def n4_def numeral_eq_Suc)
  have cell_floats: "concat (map flat3 (face_vertices s x z RoofF @ face_vertices s x z FloorF)) =
      (let x0 = fl32 (s * fl32 (fl32 (real x) - 1 / 2));
           x1 = fl32 (s * fl32 (fl32 (real x) + 1 / 2));
           z0 = fl32 (s * fl32 (fl32 (real z) - 1 / 2));
           z1 = fl32 (s * fl32 (fl32 (real z) + 1 / 2))
       in [x0, s, z0,  x1, s, z1,  x0, s, z1,  x0, s, z0,  x1, s, z0,  x1, s, z1,
           x0, 0, z0,  x0, 0, z1,  x1, 0, z1,  x0, 0, z0,  x1, 0, z1,  x1, 0, z0])"
    by (simp add: flat3_def Let_def v1_def v2_def v3_def v4_def v5_def v6_def v7_def v8_def)
  show ?thesis
  proof (intro exI conjI)
    show "GenMeshCubicmap m s = Some \<lparr>vertexCount = 6 * length (?T p @ [(x, z, RoofF), (x, z, FloorF)] @ ?T r),
            vertices = ?V (?T p @ [(x, z, RoofF), (x, z, FloorF)] @ ?T r),
            texcoords = concat (map flat2 (concat (map (\<lambda>(x, z, f). face_texcoords f)
                          (?T p @ [(x, z, RoofF), (x, z, FloorF)] @ ?T r)))),
            normals = ?N (?T p @ [(x, z, RoofF), (x, z, FloorF)] @ ?T r)\<rparr>"
      by (rule mesh)
    show "emitted_faces m = Some (?T p @ [(x, z, RoofF), (x, z, FloorF)] @ ?T r)" by (rule em)
    show "\<forall>t \<in> set (?T p @ ?T r). (fst t, fst (snd t)) \<noteq> (x, z)" by (rule other)
    show "length (?V (?T p)) = 18 * length (?T p)" by (rule length_face_floats)
    show "length (?V (?T r)) = 18 * length (?T r)" by (rule length_face_floats)
    show "length (?N (?T p)) = 18 * length (?T p)" by (rule length_face_floats)
    show "length (?N (?T r)) = 18 * length (?T r)" by (rule length_face_floats)
  next
    show "vertexCount \<lparr>vertexCount = 6 * length (?T p @ [(x, z, RoofF), (x, z, FloorF)] @ ?T r),
            vertices = ?V (?T p @ [(x, z, RoofF), (x, z, FloorF)] @ ?T r),
            texcoords = concat (map flat2 (concat (map (\<lambda>(x, z, f). face_texcoords f)
                          (?T p @ [(x, z, RoofF), (x, z, FloorF)] @ ?T r)))),
            normals = ?N (?T p @ [(x, z, RoofF), (x, z, FloorF)] @ ?T r)\<rparr>
          = 6 * length (?T p) + 12 + 6 * length (?T r)"
      by simp
  next
    show "normals \<lparr>vertexCount = 6 * length (?T p @ [(x, z, RoofF), (x, z, FloorF)] @ ?T r),
            vertices = ?V (?T p @ [(x, z, RoofF), (x, z, FloorF)] @ ?T r),
            texcoords = concat (map flat2 (concat (map (\<lambda>(x, z, f). face_texcoords f)
                          (?T p @ [(x, z, RoofF), (x, z, FloorF)] @ ?T r)))),
            normals = ?N (?T p @ [(x, z, RoofF), (x, z, FloorF)] @ ?T r)\<rparr>
          = ?N (?T p) @ concat (replicate 6 [0, - 1, 0]) @ concat (replicate 6 [0, 1, 0]) @ ?N (?T r)"
      using ns by simp
  next
    show "let x0 = fl32 (s * fl32 (fl32 (real x) - 1 / 2));
              x1 = fl32 (s * fl32 (fl32 (real x) + 1 / 2));
              z0 = fl32 (s * fl32 (fl32 (real z) - 1 / 2));
              z1 = fl32 (s * fl32 (fl32 (real z) + 1 / 2))
          in vertices \<lparr>vertexCount = 6 * length (?T p @ [(x, z, RoofF), (x, z, FloorF)] @ ?T r),
            vertices = ?V (?T p @ [(x, z, RoofF), (x, z, FloorF)] @ ?T r),
            texcoords = concat (map flat2 (concat (map (\<lambda>(x, z, f). face_texcoords f)
                          (?T p @ [(x, z, RoofF), (x, z, FloorF)] @ ?T r)))),
            normals = ?N (?T p @ [(x, z, RoofF), (x, z, FloorF)] @ ?T r)\<rparr> =
               ?V (?T p) @ [x0, s, z0,  x1, s, z1,  x0, s, z1,  x0, s, z0,  x1, s, z0,  x1, s, z1,
                          x0, 0, z0,  x0, 0, z1,  x1, 0, z1,  x0, 0, z0,  x1, 0, z1,  x1, 0, z0]
                  @ ?V (?T r)"
      using vs cell_floats by (simp add: Let_def)
  qed
qed

theorem open_cell_faces_witness:
  "cubicmap_ok grid3 \<and> cell_at grid3 (int 1) (int 1) = Some BLACK \<and> is_black BLACK
   \<and> (\<exists>mesh before after vpre vpost npre npost.
           GenMeshCubicmap grid3 1 = Some mesh
         \<and> emitted_faces grid3 = Some (before @ [(1, 1, RoofF), (1, 1, FloorF)] @ after)
         \<and> (\<forall>t \<in> set (before @ after). (fst t, fst (snd t)) \<noteq> (1, 1))
         \<and> vertexCount mesh = 6 * length before + 12 + 6 * length after
         \<and> length vpre = 18 * length before \<and> length vpost = 18 * length after
         \<and> length npre = 18 * length before \<and> length npost = 18 * length after
         \<and> vertices mesh =
             vpre @ [1 / 2, 1, 1 / 2,  3 / 2, 1, 3 / 2,  1 / 2, 1, 3 / 2,
                     1 / 2, 1, 1 / 2,  3 / 2, 1, 1 / 2,  3 / 2, 1, 3 / 2,
                     1 / 2, 0, 1 / 2,  1 / 2, 0, 3 / 2,  3 / 2, 0, 3 / 2,
                     1 / 2, 0, 1 / 2,  3 / 2, 0, 3 / 2,  3 / 2, 0, 1 / 2] @ vpost
         \<and> normals mesh =
             npre @ concat (replicate 6 [0, - 1, 0]) @ concat (replicate 6 [0, 1, 0]) @ npost)"
proof -
  have h: "cubicmap_ok grid3" "cell_at grid3 (int 1) (int 1) = Some BLACK" "is_black BLACK"
    by (simp_all add: cubicmap_ok_def INT_MAX_def grid3_def cell_at_def pixel_at_def
        is_black_def BLACK_def)
  from open_cell_faces [OF h, of 1] h show ?thesis
    by (simp add: Let_def fl32_one fl32_half fl32_three_halves)
qed

text \<open>
  Claim C6. On a well-formed map (a pixel array of \<open>W * H\<close> entries, and
  \<open>W * H * 12 * 3 * 3\<close>, three times the worst-case vertex count, at most \<^verbatim>\<open>INT_MAX\<close>)
  and for any cube size (positive or not), \<^verbatim>\<open>GenMeshCubicmap\<close> returns a mesh, without
  an access out of bounds and with every \<^verbatim>\<open>int\<close> expression in range; its vertex count
  is six times the number of faces written, a multiple of 3, and at most
  \<open>W * H * 12 * 3\<close>; the arrays hold 3, 3 and 2 floats per vertex.
\<close>

theorem GenMeshCubicmap_vertexCount:
  assumes ok: "cubicmap_ok m"
  shows "\<exists>mesh fs. GenMeshCubicmap m s = Some mesh \<and> emitted_faces m = Some fs
           \<and> vertexCount mesh = 6 * length fs
           \<and> 3 dvd vertexCount mesh
           \<and> vertexCount mesh \<le> img_width m * img_height m * 12 * 3
           \<and> length (vertices mesh) = 3 * vertexCount mesh
           \<and> length (normals mesh) = 3 * vertexCount mesh
           \<and> length (texcoords mesh) = 2 * vertexCount mesh"
proof -
  let ?mesh = "\<lambda>fs. \<lparr>vertexCount = 6 * length fs,
                     vertices = concat (map flat3 (concat (map (\<lambda>(x, z, f). face_vertices s x z f) fs))),
                     texcoords = concat (map flat2 (concat (map (\<lambda>(x, z, f). face_texcoords f) fs))),
                     normals = concat (map flat3 (concat (map (\<lambda>(x, z, f). replicate 6 (face_normal f)) fs)))\<rparr>"
  from GenMeshCubicmap_result [OF ok, of s] obtain fs where
    fs: "emitted_faces m = Some fs" "length fs \<le> 6 * (img_width m * img_height m)"
    and mesh: "GenMeshCubicmap m s = Some (?mesh fs)"
    by blast
  have lv: "length (concat (map (\<lambda>(x, z, f). face_vertices s x z f) fs)) = 6 * length fs"
    by (induction fs) (auto simp add: length_face_vertices)
  have ln: "length (concat (map (\<lambda>(x, z, f). replicate 6 (face_normal f)) fs)) = 6 * length fs"
    by (induction fs) auto
  have lt: "length (concat (map (\<lambda>(x, z, f). face_texcoords f) fs)) = 6 * length fs"
    by (induction fs) (auto simp add: length_face_texcoords)
  have l3: "length (concat (map flat3 vs)) = 3 * length vs" for vs
    by (induction vs) (simp_all add: flat3_def)
  have l2: "length (concat (map flat2 vs)) = 2 * length vs" for vs
    by (induction vs) (simp_all add: flat2_def)
  show ?thesis
  proof (intro exI conjI)
    show "GenMeshCubicmap m s = Some (?mesh fs)" by (rule mesh)
    show "emitted_faces m = Some fs" by (rule fs(1))
    show "vertexCount (?mesh fs) = 6 * length fs" by simp
    show "3 dvd vertexCount (?mesh fs)" by (simp add: dvd_mult2)
    show "vertexCount (?mesh fs) \<le> img_width m * img_height m * 12 * 3"
      using fs(2) by (simp add: mult.commute)
    show "length (vertices (?mesh fs)) = 3 * vertexCount (?mesh fs)" by (simp add: l3 lv)
    show "length (normals (?mesh fs)) = 3 * vertexCount (?mesh fs)" by (simp add: l3 ln)
    show "length (texcoords (?mesh fs)) = 2 * vertexCount (?mesh fs)" by (simp add: l2 lt)
  qed
qed

theorem GenMeshCubicmap_vertexCount_witness:
  "cubicmap_ok tall_map \<and>
   (\<exists>mesh fs. GenMeshCubicmap tall_map 1 = Some mesh \<and> emitted_faces tall_map = Some fs
           \<and> vertexCount mesh = 6 * length fs
           \<and> 3 dvd vertexCount mesh
           \<and> vertexCount mesh \<le> img_width tall_map * img_height tall_map * 12 * 3
           \<and> length (vertices mesh) = 3 * vertexCount mesh
           \<and> length (normals mesh) = 3 * vertexCount mesh
           \<and> length (texcoords mesh) = 2 * vertexCount mesh)"
proof -
  have h: "cubicmap_ok tall_map" by (simp add: cubicmap_ok_def tall_map_def INT_MAX_def)
  from GenMeshCubicmap_vertexCount [OF h, of 1] h show ?thesis by simp
qed


lemma cubicmap_ok_grid3: "cubicmap_ok grid3"
  by (simp add: cubicmap_ok_def grid3_def INT_MAX_def)

lemma emitted_faces_grid3:
  "emitted_faces grid3 = Some
     [(0, 0, TopF), (0, 0, BottomF), (0, 0, BackF), (0, 0, LeftF),
      (1, 0, TopF), (1, 0, BottomF), (1, 0, FrontF), (1, 0, BackF),
      (2, 0, TopF), (2, 0, BottomF), (2, 0, BackF), (2, 0, RightF),
      (0, 1, TopF), (0, 1, BottomF), (0, 1, RightF), (0, 1, LeftF),
      (1, 1, RoofF), (1, 1, FloorF),
      (2, 1, TopF), (2, 1, BottomF), (2, 1, RightF), (2, 1, LeftF),
      (0, 2, TopF), (0, 2, BottomF), (0, 2, FrontF), (0, 2, LeftF),
      (1, 2, TopF), (1, 2, BottomF), (1, 2, FrontF), (1, 2, BackF),
      (2, 2, TopF), (2, 2, BottomF), (2, 2, FrontF), (2, 2, RightF)]"
  by code_simp

lemma cube_coords:
  "fl32 (1 * fl32 (fl32 (real 0) - 1 / 2)) = - (1 / 2)"
  "fl32 (1 * fl32 (fl32 (real 0) + 1 / 2)) = 1 / 2"
  "fl32 (1 * fl32 (fl32 (real 1) - 1 / 2)) = 1 / 2"
  "fl32 (1 * fl32 (fl32 (real 1) + 1 / 2)) = 3 / 2"
  "fl32 (1 * fl32 (fl32 (real 2) - 1 / 2)) = 3 / 2"
  "fl32 (1 * fl32 (fl32 (real 2) + 1 / 2)) = 5 / 2"
  by (simp_all add: fl32_zero fl32_one fl32_two fl32_half fl32_minus_half fl32_three_halves
      fl32_five_halves)

lemma grid3_mesh_faces:
  "GenMeshCubicmap grid3 1 =
     Some \<lparr>vertexCount = 204,
           vertices = concat (map flat3 (concat (map (\<lambda>(x, z, f). face_vertices 1 x z f)
              ([(0, 0, TopF), (0, 0, BottomF), (0, 0, BackF), (0, 0, LeftF),
      (1, 0, TopF), (1, 0, BottomF), (1, 0, FrontF), (1, 0, BackF),
      (2, 0, TopF), (2, 0, BottomF), (2, 0, BackF), (2, 0, RightF),
      (0, 1, TopF), (0, 1, BottomF), (0, 1, RightF), (0, 1, LeftF),
      (1, 1, RoofF), (1, 1, FloorF),
      (2, 1, TopF), (2, 1, BottomF), (2, 1, RightF), (2, 1, LeftF),
      (0, 2, TopF), (0, 2, BottomF), (0, 2, FrontF), (0, 2, LeftF),
      (1, 2, TopF), (1, 2, BottomF), (1, 2, FrontF), (1, 2, BackF),
      (2, 2, TopF), (2, 2, BottomF), (2, 2, FrontF), (2, 2, RightF)] :: (nat \<times> nat \<times> face) list)))),
           texcoords = concat (map flat2 (concat (map (\<lambda>(x, z, f). face_texcoords f)
              ([(0, 0, TopF), (0, 0, BottomF), (0, 0, BackF), (0, 0, LeftF),
      (1, 0, TopF), (1, 0, BottomF), (1, 0, FrontF), (1, 0, BackF),
      (2, 0, TopF), (2, 0, BottomF), (2, 0, BackF), (2, 0, RightF),
      (0, 1, TopF), (0, 1, BottomF), (0, 1, RightF), (0, 1, LeftF),
      (1, 1, RoofF), (1, 1, FloorF),
      (2, 1, TopF), (2, 1, BottomF), (2, 1, RightF), (2, 1, LeftF),
      (0, 2, TopF), (0, 2, BottomF), (0, 2, FrontF), (0, 2, LeftF),
      (1, 2, TopF), (1, 2, BottomF), (1, 2, FrontF), (1, 2, BackF),
      (2, 2, TopF), (2, 2, BottomF), (2, 2, FrontF), (2, 2, RightF)] :: (nat \<times> nat \<times> face) list)))),
           normals = concat (map flat3 (concat (map (\<lambda>(x, z, f). replicate 6 (face_normal f))
              ([(0, 0, TopF), (0, 0, BottomF), (0, 0, BackF), (0, 0, LeftF),
      (1, 0, TopF), (1, 0, BottomF), (1, 0, FrontF), (1, 0, BackF),
      (2, 0, TopF), (2, 0, BottomF), (2, 0, BackF), (2, 0, RightF),
      (0, 1, TopF), (0, 1, BottomF), (0, 1, RightF), (0, 1, LeftF),
      (1, 1, RoofF), (1, 1, FloorF),
      (2, 1, TopF), (2, 1, BottomF), (2, 1, RightF), (2, 1, LeftF),
      (0, 2, TopF), (0, 2, BottomF), (0, 2, FrontF), (0, 2, LeftF),
      (1, 2, TopF), (1, 2, BottomF), (1, 2, FrontF), (1, 2, BackF),
      (2, 2, TopF), (2, 2, BottomF), (2, 2, FrontF), (2, 2, RightF)] :: (nat \<times> nat \<times> face) list))))\<rparr>"
proof -
  from GenMeshCubicmap_result [OF cubicmap_ok_grid3, of 1] obtain fs where
    fs: "emitted_faces grid3 = Some fs"
    and mesh: "GenMeshCubicmap grid3 1 =
       Some \<lparr>vertexCount = 6 * length fs,
             vertices = concat (map flat3 (concat (map (\<lambda>(x, z, f). face_vertices 1 x z f) fs))),
             texcoords = concat (map flat2 (concat (map (\<lambda>(x, z, f). face_texcoords f) fs))),
             normals = concat (map flat3 (concat (map (\<lambda>(x, z, f). replicate 6 (face_normal f)) fs)))\<rparr>"
    by blast
  from fs have eq: "fs = [(0, 0, TopF), (0, 0, BottomF), (0, 0, BackF), (0, 0, LeftF),
      (1, 0, TopF), (1, 0, BottomF), (1, 0, FrontF), (1, 0, BackF),
      (2, 0, TopF), (2, 0, BottomF), (2, 0, BackF), (2, 0, RightF),
      (0, 1, TopF), (0, 1, BottomF), (0, 1, RightF), (0, 1, LeftF),
      (1, 1, RoofF), (1, 1, FloorF),
      (2, 1, TopF), (2, 1, BottomF), (2, 1, RightF), (2, 1, LeftF),
      (0, 2, TopF), (0, 2, BottomF), (0, 2, FrontF), (0, 2, LeftF),
      (1, 2, TopF), (1, 2, BottomF), (1, 2, FrontF), (1, 2, BackF),
      (2, 2, TopF), (2, 2, BottomF), (2, 2, FrontF), (2, 2, RightF)]"
    unfolding emitted_faces_grid3 by (simp only: option.inject)
  have n: "6 * length fs = 204" unfolding eq by simp
  show ?thesis using mesh unfolding n unfolding eq .
qed

text \<open>
  Claim C7. The mesh of the 3 by 3 map that is white but for its centre, with cubes of
  size 1: top and bottom for the eight white cells, ceiling and floor for the centre;
  the side faces that are not on the outer boundary are exactly the four that look at
  the centre; the side faces on the outer boundary are all there (two for a corner
  cell, one for an edge cell); 34 faces, 204 vertices. The coordinates of the vertices
  are listed face by face, in the order of the faces, and the normals vertex by vertex.
\<close>

theorem GenMeshCubicmap_grid3:
  "emitted_faces grid3 = Some
     [(0, 0, TopF), (0, 0, BottomF), (0, 0, BackF), (0, 0, LeftF),
      (1, 0, TopF), (1, 0, BottomF), (1, 0, FrontF), (1, 0, BackF),
      (2, 0, TopF), (2, 0, BottomF), (2, 0, BackF), (2, 0, RightF),
      (0, 1, TopF), (0, 1, BottomF), (0, 1, RightF), (0, 1, LeftF),
      (1, 1, RoofF), (1, 1, FloorF),
      (2, 1, TopF), (2, 1, BottomF), (2, 1, RightF), (2, 1, LeftF),
      (0, 2, TopF), (0, 2, BottomF), (0, 2, FrontF), (0, 2, LeftF),
      (1, 2, TopF), (1, 2, BottomF), (1, 2, FrontF), (1, 2, BackF),
      (2, 2, TopF), (2, 2, BottomF), (2, 2, FrontF), (2, 2, RightF)]
   \<and> map_option (filter (\<lambda>t. is_side (snd (snd t)) \<and> \<not> on_boundary 3 3 t)) (emitted_faces grid3)
       = Some [(1, 0, FrontF), (0, 1, RightF), (2, 1, LeftF), (1, 2, BackF)]
   \<and> map_option (filter (\<lambda>t. is_side (snd (snd t)) \<and> on_boundary 3 3 t)) (emitted_faces grid3)
       = Some [(0, 0, BackF), (0, 0, LeftF), (1, 0, BackF), (2, 0, BackF), (2, 0, RightF),
               (0, 1, LeftF), (2, 1, RightF), (0, 2, FrontF), (0, 2, LeftF), (1, 2, FrontF),
               (2, 2, FrontF), (2, 2, RightF)]
   \<and> map_option vertexCount (GenMeshCubicmap grid3 1) = Some 204
   \<and> map_option vertices (GenMeshCubicmap grid3 1) = Some (concat
       [[- (1 / 2), 1, - (1 / 2),  - (1 / 2), 1, 1 / 2,  1 / 2, 1, 1 / 2,  - (1 / 2), 1, - (1 / 2),  1 / 2, 1, 1 / 2,  1 / 2, 1, - (1 / 2)],
        [- (1 / 2), 0, - (1 / 2),  1 / 2, 0, 1 / 2,  - (1 / 2), 0, 1 / 2,  - (1 / 2), 0, - (1 / 2),  1 / 2, 0, - (1 / 2),  1 / 2, 0, 1 / 2],
        [- (1 / 2), 1, - (1 / 2),  1 / 2, 0, - (1 / 2),  - (1 / 2), 0, - (1 / 2),  - (1 / 2), 1, - (1 / 2),  1 / 2, 1, - (1 / 2),  1 / 2, 0, - (1 / 2)],
        [- (1 / 2), 1, - (1 / 2),  - (1 / 2), 0, 1 / 2,  - (1 / 2), 1, 1 / 2,  - (1 / 2), 1, - (1 / 2),  - (1 / 2), 0, - (1 / 2),  - (1 / 2), 0, 1 / 2],
        [1 / 2, 1, - (1 / 2),  1 / 2, 1, 1 / 2,  3 / 2, 1, 1 / 2,  1 / 2, 1, - (1 / 2),  3 / 2, 1, 1 / 2,  3 / 2, 1, - (1 / 2)],
        [1 / 2, 0, - (1 / 2),  3 / 2, 0, 1 / 2,  1 / 2, 0, 1 / 2,  1 / 2, 0, - (1 / 2),  3 / 2, 0, - (1 / 2),  3 / 2, 0, 1 / 2],
        [1 / 2, 1, 1 / 2,  1 / 2, 0, 1 / 2,  3 / 2, 1, 1 / 2,  3 / 2, 1, 1 / 2,  1 / 2, 0, 1 / 2,  3 / 2, 0, 1 / 2],
        [1 / 2, 1, - (1 / 2),  3 / 2, 0, - (1 / 2),  1 / 2, 0, - (1 / 2),  1 / 2, 1, - (1 / 2),  3 / 2, 1, - (1 / 2),  3 / 2, 0, - (1 / 2)],
        [3 / 2, 1, - (1 / 2),  3 / 2, 1, 1 / 2,  5 / 2, 1, 1 / 2,  3 / 2, 1, - (1 / 2),  5 / 2, 1, 1 / 2,  5 / 2, 1, - (1 / 2)],
        [3 / 2, 0, - (1 / 2),  5 / 2, 0, 1 / 2,  3 / 2, 0, 1 / 2,  3 / 2, 0, - (1 / 2),  5 / 2, 0, - (1 / 2),  5 / 2, 0, 1 / 2],
        [3 / 2, 1, - (1 / 2),  5 / 2, 0, - (1 / 2),  3 / 2, 0, - (1 / 2),  3 / 2, 1, - (1 / 2),  5 / 2, 1, - (1 / 2),  5 / 2, 0, - (1 / 2)],
        [5 / 2, 1, 1 / 2,  5 / 2, 0, 1 / 2,  5 / 2, 1, - (1 / 2),  5 / 2, 1, - (1 / 2),  5 / 2, 0, 1 / 2,  5 / 2, 0, - (1 / 2)],
        [- (1 / 2), 1, 1 / 2,  - (1 / 2), 1, 3 / 2,  1 / 2, 1, 3 / 2,  - (1 / 2), 1, 1 / 2,  1 / 2, 1, 3 / 2,  1 / 2, 1, 1 / 2],
        [- (1 / 2), 0, 1 / 2,  1 / 2, 0, 3 / 2,  - (1 / 2), 0, 3 / 2,  - (1 / 2), 0, 1 / 2,  1 / 2, 0, 1 / 2,  1 / 2, 0, 3 / 2],
        [1 / 2, 1, 3 / 2,  1 / 2, 0, 3 / 2,  1 / 2, 1, 1 / 2,  1 / 2, 1, 1 / 2,  1 / 2, 0, 3 / 2,  1 / 2, 0, 1 / 2],
        [- (1 / 2), 1, 1 / 2,  - (1 / 2), 0, 3 / 2,  - (1 / 2), 1, 3 / 2,  - (1 / 2), 1, 1 / 2,  - (1 / 2), 0, 1 / 2,  - (1 / 2), 0, 3 / 2],
        [1 / 2, 1, 1 / 2,  3 / 2, 1, 3 / 2,  1 / 2, 1, 3 / 2,  1 / 2, 1, 1 / 2,  3 / 2, 1, 1 / 2,  3 / 2, 1, 3 / 2],
        [1 / 2, 0, 1 / 2,  1 / 2, 0, 3 / 2,  3 / 2, 0, 3 / 2,  1 / 2, 0, 1 / 2,  3 / 2, 0, 3 / 2,  3 / 2, 0, 1 / 2],
        [3 / 2, 1, 1 / 2,  3 / 2, 1, 3 / 2,  5 / 2, 1, 3 / 2,  3 / 2, 1, 1 / 2,  5 / 2, 1, 3 / 2,  5 / 2, 1, 1 / 2],
        [3 / 2, 0, 1 / 2,  5 / 2, 0, 3 / 2,  3 / 2, 0, 3 / 2,  3 / 2, 0, 1 / 2,  5 / 2, 0, 1 / 2,  5 / 2, 0, 3 / 2],
        [5 / 2, 1, 3 / 2,  5 / 2, 0, 3 / 2,  5 / 2, 1, 1 / 2,  5 / 2, 1, 1 / 2,  5 / 2, 0, 3 / 2,  5 / 2, 0, 1 / 2],
        [3 / 2, 1, 1 / 2,  3 / 2, 0, 3 / 2,  3 / 2, 1, 3 / 2,  3 / 2, 1, 1 / 2,  3 / 2, 0, 1 / 2,  3 / 2, 0, 3 / 2],
        [- (1 / 2), 1, 3 / 2,  - (1 / 2), 1, 5 / 2,  1 / 2, 1, 5 / 2,  - (1 / 2), 1, 3 / 2,  1 / 2, 1, 5 / 2,  1 / 2, 1, 3 / 2],
        [- (1 / 2), 0, 3 / 2,  1 / 2, 0, 5 / 2,  - (1 / 2), 0, 5 / 2,  - (1 / 2), 0, 3 / 2,  1 / 2, 0, 3 / 2,  1 / 2, 0, 5 / 2],
        [- (1 / 2), 1, 5 / 2,  - (1 / 2), 0, 5 / 2,  1 / 2, 1, 5 / 2,  1 / 2, 1, 5 / 2,  - (1 / 2), 0, 5 / 2,  1 / 2, 0, 5 / 2],
        [- (1 / 2), 1, 3 / 2,  - (1 / 2), 0, 5 / 2,  - (1 / 2), 1, 5 / 2,  - (1 / 2), 1, 3 / 2,  - (1 / 2), 0, 3 / 2,  - (1 / 2), 0, 5 / 2],
        [1 / 2, 1, 3 / 2,  1 / 2, 1, 5 / 2,  3 / 2, 1, 5 / 2,  1 / 2, 1, 3 / 2,  3 / 2, 1, 5 / 2,  3 / 2, 1, 3 / 2],
        [1 / 2, 0, 3 / 2,  3 / 2, 0, 5 / 2,  1 / 2, 0, 5 / 2,  1 / 2, 0, 3 / 2,  3 / 2, 0, 3 / 2,  3 / 2, 0, 5 / 2],
        [1 / 2, 1, 5 / 2,  1 / 2, 0, 5 / 2,  3 / 2, 1, 5 / 2,  3 / 2, 1, 5 / 2,  1 / 2, 0, 5 / 2,  3 / 2, 0, 5 / 2],
        [1 / 2, 1, 3 / 2,  3 / 2, 0, 3 / 2,  1 / 2, 0, 3 / 2,  1 / 2, 1, 3 / 2,  3 / 2, 1, 3 / 2,  3 / 2, 0, 3 / 2],
        [3 / 2, 1, 3 / 2,  3 / 2, 1, 5 / 2,  5 / 2, 1, 5 / 2,  3 / 2, 1, 3 / 2,  5 / 2, 1, 5 / 2,  5 / 2, 1, 3 / 2],
        [3 / 2, 0, 3 / 2,  5 / 2, 0, 5 / 2,  3 / 2, 0, 5 / 2,  3 / 2, 0, 3 / 2,  5 / 2, 0, 3 / 2,  5 / 2, 0, 5 / 2],
        [3 / 2, 1, 5 / 2,  3 / 2, 0, 5 / 2,  5 / 2, 1, 5 / 2,  5 / 2, 1, 5 / 2,  3 / 2, 0, 5 / 2,  5 / 2, 0, 5 / 2],
        [5 / 2, 1, 5 / 2,  5 / 2, 0, 5 / 2,  5 / 2, 1, 3 / 2,  5 / 2, 1, 3 / 2,  5 / 2, 0, 5 / 2,  5 / 2, 0, 3 / 2]])
   \<and> map_option normals (GenMeshCubicmap grid3 1) = Some (concat (map (\<lambda>n. concat (replicate 6 n))
       [[0, 1, 0], [0, - 1, 0], [0, 0, 1], [- 1, 0, 0],
        [0, 1, 0], [0, - 1, 0], [0, 0, - 1], [0, 0, 1],
        [0, 1, 0], [0, - 1, 0], [0, 0, 1], [1, 0, 0],
        [0, 1, 0], [0, - 1, 0], [1, 0, 0], [- 1, 0, 0],
        [0, - 1, 0], [0, 1, 0], [0, 1, 0], [0, - 1, 0],
        [1, 0, 0], [- 1, 0, 0], [0, 1, 0], [0, - 1, 0],
        [0, 0, - 1], [- 1, 0, 0], [0, 1, 0], [0, - 1, 0],
        [0, 0, - 1], [0, 0, 1], [0, 1, 0], [0, - 1, 0],
        [0, 0, - 1], [1, 0, 0]]))"

proof -
  have tags: "emitted_faces grid3 = Some
     [(0, 0, TopF), (0, 0, BottomF), (0, 0, BackF), (0, 0, LeftF),
      (1, 0, TopF), (1, 0, BottomF), (1, 0, FrontF), (1, 0, BackF),
      (2, 0, TopF), (2, 0, BottomF), (2, 0, BackF), (2, 0, RightF),
      (0, 1, TopF), (0, 1, BottomF), (0, 1, RightF), (0, 1, LeftF),
      (1, 1, RoofF), (1, 1, FloorF),
      (2, 1, TopF), (2, 1, BottomF), (2, 1, RightF), (2, 1, LeftF),
      (0, 2, TopF), (0, 2, BottomF), (0, 2, FrontF), (0, 2, LeftF),
      (1, 2, TopF), (1, 2, BottomF), (1, 2, FrontF), (1, 2, BackF),
      (2, 2, TopF), (2, 2, BottomF), (2, 2, FrontF), (2, 2, RightF)]"
    by (rule emitted_faces_grid3)
  have inner: "map_option (filter (\<lambda>t. is_side (snd (snd t)) \<and> \<not> on_boundary 3 3 t)) (emitted_faces grid3)
       = Some [(1, 0, FrontF), (0, 1, RightF), (2, 1, LeftF), (1, 2, BackF)]"
    unfolding emitted_faces_grid3 by (simp add: is_side_def on_boundary_def)
  have outer: "map_option (filter (\<lambda>t. is_side (snd (snd t)) \<and> on_boundary 3 3 t)) (emitted_faces grid3)
       = Some [(0, 0, BackF), (0, 0, LeftF), (1, 0, BackF), (2, 0, BackF), (2, 0, RightF),
               (0, 1, LeftF), (2, 1, RightF), (0, 2, FrontF), (0, 2, LeftF), (1, 2, FrontF),
               (2, 2, FrontF), (2, 2, RightF)]"
    unfolding emitted_faces_grid3 by (simp add: is_side_def on_boundary_def)
  have cnt: "map_option vertexCount (GenMeshCubicmap grid3 1) = Some 204"
    unfolding grid3_mesh_faces by simp
  have vs: "map_option vertices (GenMeshCubicmap grid3 1) = Some (concat
       [[- (1 / 2), 1, - (1 / 2),  - (1 / 2), 1, 1 / 2,  1 / 2, 1, 1 / 2,  - (1 / 2), 1, - (1 / 2),  1 / 2, 1, 1 / 2,  1 / 2, 1, - (1 / 2)],
        [- (1 / 2), 0, - (1 / 2),  1 / 2, 0, 1 / 2,  - (1 / 2), 0, 1 / 2,  - (1 / 2), 0, - (1 / 2),  1 / 2, 0, - (1 / 2),  1 / 2, 0, 1 / 2],
        [- (1 / 2), 1, - (1 / 2),  1 / 2, 0, - (1 / 2),  - (1 / 2), 0, - (1 / 2),  - (1 / 2), 1, - (1 / 2),  1 / 2, 1, - (1 / 2),  1 / 2, 0, - (1 / 2)],
        [- (1 / 2), 1, - (1 / 2),  - (1 / 2), 0, 1 / 2,  - (1 / 2), 1, 1 / 2,  - (1 / 2), 1, - (1 / 2),  - (1 / 2), 0, - (1 / 2),  - (1 / 2), 0, 1 / 2],
        [1 / 2, 1, - (1 / 2),  1 / 2, 1, 1 / 2,  3 / 2, 1, 1 / 2,  1 / 2, 1, - (1 / 2),  3 / 2, 1, 1 / 2,  3 / 2, 1, - (1 / 2)],
        [1 / 2, 0, - (1 / 2),  3 / 2, 0, 1 / 2,  1 / 2, 0, 1 / 2,  1 / 2, 0, - (1 / 2),  3 / 2, 0, - (1 / 2),  3 / 2, 0, 1 / 2],
        [1 / 2, 1, 1 / 2,  1 / 2, 0, 1 / 2,  3 / 2, 1, 1 / 2,  3 / 2, 1, 1 / 2,  1 / 2, 0, 1 / 2,  3 / 2, 0, 1 / 2],
        [1 / 2, 1, - (1 / 2),  3 / 2, 0, - (1 / 2),  1 / 2, 0, - (1 / 2),  1 / 2, 1, - (1 / 2),  3 / 2, 1, - (1 / 2),  3 / 2, 0, - (1 / 2)],
        [3 / 2, 1, - (1 / 2),  3 / 2, 1, 1 / 2,  5 / 2, 1, 1 / 2,  3 / 2, 1, - (1 / 2),  5 / 2, 1, 1 / 2,  5 / 2, 1, - (1 / 2)],
        [3 / 2, 0, - (1 / 2),  5 / 2, 0, 1 / 2,  3 / 2, 0, 1 / 2,  3 / 2, 0, - (1 / 2),  5 / 2, 0, - (1 / 2),  5 / 2, 0, 1 / 2],
        [3 / 2, 1, - (1 / 2),  5 / 2, 0, - (1 / 2),  3 / 2, 0, - (1 / 2),  3 / 2, 1, - (1 / 2),  5 / 2, 1, - (1 / 2),  5 / 2, 0, - (1 / 2)],
        [5 / 2, 1, 1 / 2,  5 / 2, 0, 1 / 2,  5 / 2, 1, - (1 / 2),  5 / 2, 1, - (1 / 2),  5 / 2, 0, 1 / 2,  5 / 2, 0, - (1 / 2)],
        [- (1 / 2), 1, 1 / 2,  - (1 / 2), 1, 3 / 2,  1 / 2, 1, 3 / 2,  - (1 / 2), 1, 1 / 2,  1 / 2, 1, 3 / 2,  1 / 2, 1, 1 / 2],
        [- (1 / 2), 0, 1 / 2,  1 / 2, 0, 3 / 2,  - (1 / 2), 0, 3 / 2,  - (1 / 2), 0, 1 / 2,  1 / 2, 0, 1 / 2,  1 / 2, 0, 3 / 2],
        [1 / 2, 1, 3 / 2,  1 / 2, 0, 3 / 2,  1 / 2, 1, 1 / 2,  1 / 2, 1, 1 / 2,  1 / 2, 0, 3 / 2,  1 / 2, 0, 1 / 2],
        [- (1 / 2), 1, 1 / 2,  - (1 / 2), 0, 3 / 2,  - (1 / 2), 1, 3 / 2,  - (1 / 2), 1, 1 / 2,  - (1 / 2), 0, 1 / 2,  - (1 / 2), 0, 3 / 2],
        [1 / 2, 1, 1 / 2,  3 / 2, 1, 3 / 2,  1 / 2, 1, 3 / 2,  1 / 2, 1, 1 / 2,  3 / 2, 1, 1 / 2,  3 / 2, 1, 3 / 2],
        [1 / 2, 0, 1 / 2,  1 / 2, 0, 3 / 2,  3 / 2, 0, 3 / 2,  1 / 2, 0, 1 / 2,  3 / 2, 0, 3 / 2,  3 / 2, 0, 1 / 2],
        [3 / 2, 1, 1 / 2,  3 / 2, 1, 3 / 2,  5 / 2, 1, 3 / 2,  3 / 2, 1, 1 / 2,  5 / 2, 1, 3 / 2,  5 / 2, 1, 1 / 2],
        [3 / 2, 0, 1 / 2,  5 / 2, 0, 3 / 2,  3 / 2, 0, 3 / 2,  3 / 2, 0, 1 / 2,  5 / 2, 0, 1 / 2,  5 / 2, 0, 3 / 2],
        [5 / 2, 1, 3 / 2,  5 / 2, 0, 3 / 2,  5 / 2, 1, 1 / 2,  5 / 2, 1, 1 / 2,  5 / 2, 0, 3 / 2,  5 / 2, 0, 1 / 2],
        [3 / 2, 1, 1 / 2,  3 / 2, 0, 3 / 2,  3 / 2, 1, 3 / 2,  3 / 2, 1, 1 / 2,  3 / 2, 0, 1 / 2,  3 / 2, 0, 3 / 2],
        [- (1 / 2), 1, 3 / 2,  - (1 / 2), 1, 5 / 2,  1 / 2, 1, 5 / 2,  - (1 / 2), 1, 3 / 2,  1 / 2, 1, 5 / 2,  1 / 2, 1, 3 / 2],
        [- (1 / 2), 0, 3 / 2,  1 / 2, 0, 5 / 2,  - (1 / 2), 0, 5 / 2,  - (1 / 2), 0, 3 / 2,  1 / 2, 0, 3 / 2,  1 / 2, 0, 5 / 2],
        [- (1 / 2), 1, 5 / 2,  - (1 / 2), 0, 5 / 2,  1 / 2, 1, 5 / 2,  1 / 2, 1, 5 / 2,  - (1 / 2), 0, 5 / 2,  1 / 2, 0, 5 / 2],
        [- (1 / 2), 1, 3 / 2,  - (1 / 2), 0, 5 / 2,  - (1 / 2), 1, 5 / 2,  - (1 / 2), 1, 3 / 2,  - (1 / 2), 0, 3 / 2,  - (1 / 2), 0, 5 / 2],
        [1 / 2, 1, 3 / 2,  1 / 2, 1, 5 / 2,  3 / 2, 1, 5 / 2,  1 / 2, 1, 3 / 2,  3 / 2, 1, 5 / 2,  3 / 2, 1, 3 / 2],
        [1 / 2, 0, 3 / 2,  3 / 2, 0, 5 / 2,  1 / 2, 0, 5 / 2,  1 / 2, 0, 3 / 2,  3 / 2, 0, 3 / 2,  3 / 2, 0, 5 / 2],
        [1 / 2, 1, 5 / 2,  1 / 2, 0, 5 / 2,  3 / 2, 1, 5 / 2,  3 / 2, 1, 5 / 2,  1 / 2, 0, 5 / 2,  3 / 2, 0, 5 / 2],
        [1 / 2, 1, 3 / 2,  3 / 2, 0, 3 / 2,  1 / 2, 0, 3 / 2,  1 / 2, 1, 3 / 2,  3 / 2, 1, 3 / 2,  3 / 2, 0, 3 / 2],
        [3 / 2, 1, 3 / 2,  3 / 2, 1, 5 / 2,  5 / 2, 1, 5 / 2,  3 / 2, 1, 3 / 2,  5 / 2, 1, 5 / 2,  5 / 2, 1, 3 / 2],
        [3 / 2, 0, 3 / 2,  5 / 2, 0, 5 / 2,  3 / 2, 0, 5 / 2,  3 / 2, 0, 3 / 2,  5 / 2, 0, 3 / 2,  5 / 2, 0, 5 / 2],
        [3 / 2, 1, 5 / 2,  3 / 2, 0, 5 / 2,  5 / 2, 1, 5 / 2,  5 / 2, 1, 5 / 2,  3 / 2, 0, 5 / 2,  5 / 2, 0, 5 / 2],
        [5 / 2, 1, 5 / 2,  5 / 2, 0, 5 / 2,  5 / 2, 1, 3 / 2,  5 / 2, 1, 3 / 2,  5 / 2, 0, 5 / 2,  5 / 2, 0, 3 / 2]])"
    unfolding grid3_mesh_faces
    by (simp add: flat3_def v1_def v2_def v3_def v4_def v5_def v6_def v7_def v8_def
        fl32_zero fl32_one fl32_two fl32_half fl32_minus_half fl32_three_halves fl32_five_halves)
  have ns: "map_option normals (GenMeshCubicmap grid3 1) = Some (concat (map (\<lambda>n. concat (replicate 6 n))
       [[0, 1, 0], [0, - 1, 0], [0, 0, 1], [- 1, 0, 0],
        [0, 1, 0], [0, - 1, 0], [0, 0, - 1], [0, 0, 1],
        [0, 1, 0], [0, - 1, 0], [0, 0, 1], [1, 0, 0],
        [0, 1, 0], [0, - 1, 0], [1, 0, 0], [- 1, 0, 0],
        [0, - 1, 0], [0, 1, 0], [0, 1, 0], [0, - 1, 0],
        [1, 0, 0], [- 1, 0, 0], [0, 1, 0], [0, - 1, 0],
        [0, 0, - 1], [- 1, 0, 0], [0, 1, 0], [0, - 1, 0],
        [0, 0, - 1], [0, 0, 1], [0, 1, 0], [0, - 1, 0],
        [0, 0, - 1], [1, 0, 0]]))"
    unfolding grid3_mesh_faces
    by (simp add: flat3_def n1_def n2_def n3_def n4_def n5_def n6_def numeral_eq_Suc)
  from tags inner outer cnt vs ns show ?thesis by (simp only: simp_thms)
qed

text \<open>
  Claim C9. On a map of width 0 and height 0, whatever the pixel array, and so on the
  image of a failed load, \<^verbatim>\<open>GenMeshCubicmap\<close> returns the empty mesh: no access is out
  of bounds.
\<close>

theorem GenMeshCubicmap_zero_size:
  "GenMeshCubicmap \<lparr>img_width = 0, img_height = 0, img_pixels = ps\<rparr> s
     = Some \<lparr>vertexCount = 0, vertices = [], texcoords = [], normals = []\<rparr>
   \<and> GenMeshCubicmap empty_map s
     = Some \<lparr>vertexCount = 0, vertices = [], texcoords = [], normals = []\<rparr>"
  by (simp add: GenMeshCubicmap_def map_cells_def empty_map_def int_of_unsigned_def in_int_range_def)

subsection \<open>The camera\<close>

lemma sum_steps:
  "sum_list (map f (filter P all_moves)) =
     of_bool (P MOVE_FRONT) * f MOVE_FRONT + of_bool (P MOVE_BACK) * f MOVE_BACK
     + of_bool (P MOVE_RIGHT) * f MOVE_RIGHT + of_bool (P MOVE_LEFT) * (f MOVE_LEFT :: real)
     + of_bool (P MOVE_UP) * f MOVE_UP + of_bool (P MOVE_DOWN) * f MOVE_DOWN"
  by (simp add: all_moves_def)

lemma UpdateCamera_x:
  "v3_x (position (snd (UpdateCamera inp g camera))) = v3_x (position camera)
         + sum_list (map (\<lambda>k. fst (key_step (v2_x (cameraAngle g)) k)) (filter (direction inp) all_moves))"
  unfolding sum_steps
  by (simp add: UpdateCamera_def Let_def PLAYER_MOVEMENT_SENSITIVITY_def field_simps)

lemma UpdateCamera_z:
  "v3_z (position (snd (UpdateCamera inp g camera))) = v3_z (position camera)
         + sum_list (map (\<lambda>k. snd (key_step (v2_x (cameraAngle g)) k)) (filter (direction inp) all_moves))"
  unfolding sum_steps
  by (simp add: UpdateCamera_def Let_def PLAYER_MOVEMENT_SENSITIVITY_def field_simps)

lemma UpdateCamera_swing:
  "swingCounter (fst (UpdateCamera inp g camera))
     = (if list_ex (direction inp) all_moves then swingCounter g + 1 else swingCounter g)"
  by (simp add: UpdateCamera_def Let_def)

lemma UpdateCamera_y:
  "v3_y (position (snd (UpdateCamera inp g camera)))
     = playerEyesPosition - sin (real_of_int (swingCounter (fst (UpdateCamera inp g camera))) / 5) / 30"
  by (simp add: UpdateCamera_def Let_def 
      CAMERA_FIRST_PERSON_STEP_TRIGONOMETRIC_DIVIDER_def CAMERA_FIRST_PERSON_STEP_DIVIDER_def)

text \<open>
  Claim C8, as amended. The four horizontal keys move the position in the plane of x
  and z: each held key adds its step of length 1/20 along the forward or the right
  axis rotated by the yaw of the previous frame, and the steps add up; nothing depends
  on elapsed time. The vertical component of the returned position is the eye height
  with its bobbing term, whatever keys are held; a held key, of any of the six, only
  advances the swing counter by one.
\<close>

theorem UpdateCamera_position:
  "(case UpdateCamera inp g camera of (g', camera') \<Rightarrow>
      v3_x (position camera') = v3_x (position camera)
         + sum_list (map (\<lambda>k. fst (key_step (v2_x (cameraAngle g)) k)) (filter (direction inp) all_moves))
    \<and> v3_z (position camera') = v3_z (position camera)
         + sum_list (map (\<lambda>k. snd (key_step (v2_x (cameraAngle g)) k)) (filter (direction inp) all_moves))
    \<and> swingCounter g' = (if list_ex (direction inp) all_moves then swingCounter g + 1 else swingCounter g)
    \<and> v3_y (position camera') = playerEyesPosition - sin (real_of_int (swingCounter g') / 5) / 30)"
  using UpdateCamera_x [of inp g camera] UpdateCamera_z [of inp g camera]
    UpdateCamera_swing [of inp g camera] UpdateCamera_y [of inp g camera]
  by (simp only: split_beta)

text \<open>
  With only the key for moving up held, from the initial camera at height 1, the
  returned position is not 1/20 higher: it is the same as with the key for moving
  down held.
\<close>

theorem UpdateCamera_up_key_counterexample:
  "v3_y (position (snd (UpdateCamera (hold_key MOVE_UP) globals_init camera_init)))
     \<noteq> v3_y (position camera_init) + 1 / 20
   \<and> position (snd (UpdateCamera (hold_key MOVE_UP) globals_init camera_init))
     = position (snd (UpdateCamera (hold_key MOVE_DOWN) globals_init camera_init))"
proof -
  have up: "position (snd (UpdateCamera (hold_key MOVE_UP) globals_init camera_init))
      = \<lparr>v3_x = 1, v3_y = 6 / 10 - sin (1 / 5) / 30, v3_z = 1\<rparr>"
    by (simp add: UpdateCamera_def Let_def hold_key_def globals_init_def camera_init_def zero2_def all_moves_def
        playerEyesPosition_def PLAYER_MOVEMENT_SENSITIVITY_def
        CAMERA_FIRST_PERSON_STEP_TRIGONOMETRIC_DIVIDER_def CAMERA_FIRST_PERSON_STEP_DIVIDER_def)
  have down: "position (snd (UpdateCamera (hold_key MOVE_DOWN) globals_init camera_init))
      = \<lparr>v3_x = 1, v3_y = 6 / 10 - sin (1 / 5) / 30, v3_z = 1\<rparr>"
    by (simp add: UpdateCamera_def Let_def hold_key_def globals_init_def camera_init_def zero2_def all_moves_def
        playerEyesPosition_def PLAYER_MOVEMENT_SENSITIVITY_def
        CAMERA_FIRST_PERSON_STEP_TRIGONOMETRIC_DIVIDER_def CAMERA_FIRST_PERSON_STEP_DIVIDER_def)
  have old: "v3_y (position camera_init) = 1" by (simp add: camera_init_def)
  have "- 1 \<le> sin (1 / 5 :: real)" by (rule sin_ge_minus_one)
  then have "6 / 10 - sin (1 / 5 :: real) / 30 \<noteq> 1 + 1 / 20" by linarith
  then show ?thesis unfolding up down old by simp
qed


subsection \<open>The collision step\<close>

text \<open>
  What the collision step does when the map is at least as high as wide: it reads
  inside the pixel array, and puts the position back exactly when one of the cells of
  the first \<open>width\<close> rows is a collider that the circle overlaps.
\<close>

lemma fold_check_cell:
  assumes "fold_option (check_cell m p old) cam cs = Some cam'"
  shows "cam' = (if \<exists>(x, y) \<in> set cs. \<exists>c. pixel_at (img_pixels m) (y * img_width m + x) = Some c
                      \<and> is_collider c \<and> CheckCollisionCircleRec p playerRadius (cell_rectangle x y)
                 then cam\<lparr>position := old\<rparr> else cam)"
  using assms
proof (induction cs arbitrary: cam)
  case Nil
  then show ?case by simp
next
  case (Cons cell cs)
  obtain x y where cell: "cell = (x, y)" by (cases cell)
  from Cons.prems obtain c where c: "pixel_at (img_pixels m) (y * img_width m + x) = Some c"
    by (cases "pixel_at (img_pixels m) (y * img_width m + x)") (simp_all add: check_cell_def cell)
  let ?hit = "is_collider c \<and> CheckCollisionCircleRec p playerRadius (cell_rectangle x y)"
  let ?cam1 = "if ?hit then cam\<lparr>position := old\<rparr> else cam"
  have step: "check_cell m p old cam cell = Some ?cam1"
    by (simp add: check_cell_def cell c)
  with Cons.prems have rest: "fold_option (check_cell m p old) ?cam1 cs = Some cam'" by simp
  from Cons.IH [OF rest] show ?case
    by (auto simp add: cell c)
qed

lemma set_scan_cells: "set (scan_cells m) = {(x, y). x < img_width m \<and> y < img_width m}"
  by (auto simp add: scan_cells_def)

lemma fold_check_cell_total:
  assumes "\<forall>(x, y) \<in> set cs. y * img_width m + x < length (img_pixels m)"
  shows "fold_option (check_cell m p old) cam cs \<noteq> None"
  using assms
proof (induction cs arbitrary: cam)
  case Nil
  then show ?case by simp
next
  case (Cons cell cs)
  obtain x y where cell: "cell = (x, y)" by (cases cell)
  from Cons.prems have "y * img_width m + x < length (img_pixels m)" by (simp add: cell)
  then obtain cam1 where "check_cell m p old cam cell = Some cam1"
    by (simp add: check_cell_def cell pixel_at_def)
  moreover from Cons.prems have "fold_option (check_cell m p old) cam1 cs \<noteq> None"
    by (intro Cons.IH) simp
  ultimately show ?case by simp
qed

lemma resolve_collisions_result:
  assumes wf: "length (img_pixels m) = img_width m * img_height m"
    and sq: "img_width m \<le> img_height m"
  shows "resolve_collisions m p old cam =
     Some (if \<exists>x < img_width m. \<exists>y < img_width m.
                is_collider (img_pixels m ! (y * img_width m + x))
                \<and> CheckCollisionCircleRec p playerRadius (cell_rectangle x y)
           then cam\<lparr>position := old\<rparr> else cam)"
proof -
  have idx: "y * img_width m + x < length (img_pixels m)" if "x < img_width m" "y < img_width m" for x y
  proof -
    have "y * img_width m + x < (y + 1) * img_width m" using that by simp
    also have "\<dots> \<le> img_height m * img_width m"
      using that sq by (intro mult_le_mono1) simp
    finally show ?thesis by (simp add: wf mult.commute)
  qed
  then have "\<forall>(x, y) \<in> set (scan_cells m). y * img_width m + x < length (img_pixels m)"
    by (auto simp add: set_scan_cells)
  from fold_check_cell_total [OF this, of p old cam] obtain cam' where
    r: "fold_option (check_cell m p old) cam (scan_cells m) = Some cam'" by auto
  have "(\<exists>(x, y) \<in> set (scan_cells m). \<exists>c. pixel_at (img_pixels m) (y * img_width m + x) = Some c
                      \<and> is_collider c \<and> CheckCollisionCircleRec p playerRadius (cell_rectangle x y))
      = (\<exists>x < img_width m. \<exists>y < img_width m.
                is_collider (img_pixels m ! (y * img_width m + x))
                \<and> CheckCollisionCircleRec p playerRadius (cell_rectangle x y))"
    using idx by (auto simp add: set_scan_cells pixel_at_def)
  with fold_check_cell [OF r] r show ?thesis
    by (simp add: resolve_collisions_def)
qed

text \<open>
  Claim C3. The loops of the collision step run both indices up to the width. On the
  map of width 1 and height 2 only the cell \<open>(0, 0)\<close> is visited, and the white cell
  \<open>(0, 1)\<close> is not; on the map of width 2 and height 1 the third iteration reads the
  pixel array at index 2, outside its two entries.
\<close>

theorem scan_cells_not_exhaustive:
  "scan_cells tall_map = [(0, 0)] \<and> (0, 1) \<notin> set (scan_cells tall_map)
   \<and> cell_at tall_map 0 1 = Some WHITE
   \<and> length (scan_cells tall_map) \<noteq> img_width tall_map * img_height tall_map
   \<and> scan_cells wide_map = [(0, 0), (1, 0), (0, 1), (1, 1)]
   \<and> resolve_collisions wide_map playerPos oldCamPos camera = None"
  by (simp add: scan_cells_def tall_map_def wide_map_def cell_at_def pixel_at_def upt_rec
      resolve_collisions_def check_cell_def)

text \<open>
  Claim C2. On the map of width 1 and height 2, a camera in the open cell steps back by
  1/20 and its circle overlaps the white cell \<open>(0, 1)\<close>; that cell is never tested, and
  the frame ends at the new position, not at the saved one.
\<close>

theorem frame_tall_map_no_rollback:
  "map_option (\<lambda>gc. (v3_x (position (snd gc)), v3_z (position (snd gc))))
      (frame tall_map (hold_key MOVE_BACK) (globals_init, camera_near_wall)) = Some (0, 43 / 100)
   \<and> v3_z (position camera_near_wall) = 38 / 100
   \<and> cell_at tall_map 0 1 = Some WHITE \<and> is_white WHITE \<and> is_collider WHITE
   \<and> CheckCollisionCircleRec \<lparr>v2_x = 0, v2_y = 43 / 100\<rparr> playerRadius (cell_rectangle 0 1)
   \<and> \<not> CheckCollisionCircleRec \<lparr>v2_x = 0, v2_y = 38 / 100\<rparr> playerRadius (cell_rectangle 0 1)"
proof -
  have "map_option (\<lambda>gc. (v3_x (position (snd gc)), v3_z (position (snd gc))))
      (frame tall_map (hold_key MOVE_BACK) (globals_init, camera_near_wall)) = Some (0, 43 / 100)"
    by (simp add: frame_def UpdateCamera_def Let_def all_moves_def hold_key_def globals_init_def
        camera_near_wall_def zero2_def zero3_def PLAYER_MOVEMENT_SENSITIVITY_def
        resolve_collisions_def scan_cells_def tall_map_def check_cell_def pixel_at_def
        is_collider_def BLACK_def)
  moreover have "v3_z (position camera_near_wall) = 38 / 100"
    by (simp add: camera_near_wall_def)
  moreover have "cell_at tall_map 0 1 = Some WHITE \<and> is_white WHITE \<and> is_collider WHITE"
    by (simp add: tall_map_def cell_at_def pixel_at_def is_collider_def is_white_def WHITE_def)
  ultimately show ?thesis
    using CheckCollisionCircleRec_in_wall(1,2) by simp
qed


subsection \<open>Colliders and walls\<close>

text \<open>
  Claim C10. The cells that block the player are not the cells with wall geometry. The
  collider test looks at the red channel alone, the generator's wall test at red, green
  and blue: on the map of one red pixel the mesh is empty, and a player at the centre of
  the cell is put back. On the map of width 1 and height 2 the white cell \<open>(0, 1)\<close> has
  the six faces of a cube; the loops of the collision step never reach it, and a player
  at its centre stays there.
\<close>

theorem collider_wall_mismatch:
  "is_collider RED \<and> \<not> is_white RED
   \<and> emitted_faces red_map = Some []
   \<and> map_option vertexCount (GenMeshCubicmap red_map 1) = Some 0
   \<and> map_option position (resolve_collisions red_map zero2 zero3 camera_init) = Some zero3
   \<and> position camera_init \<noteq> zero3
   \<and> cell_at tall_map 0 1 = Some WHITE \<and> is_white WHITE
   \<and> cell_faces tall_map 0 1 = Some [TopF, BottomF, FrontF, BackF, RightF, LeftF]
   \<and> CheckCollisionCircleRec \<lparr>v2_x = 0, v2_y = 1\<rparr> playerRadius (cell_rectangle 0 1)
   \<and> resolve_collisions tall_map \<lparr>v2_x = 0, v2_y = 1\<rparr> zero3 camera_in_wall = Some camera_in_wall
   \<and> position camera_in_wall \<noteq> zero3"
proof -
  have red: "is_collider RED \<and> \<not> is_white RED \<and> emitted_faces red_map = Some []
     \<and> map_option vertexCount (GenMeshCubicmap red_map 1) = Some 0"
    by (simp add: is_collider_def is_white_def is_black_def RED_def red_map_def emitted_faces_def
        GenMeshCubicmap_def INT_MAX_def int_of_unsigned_def in_int_range_def Let_def
        gen_cell_def map_cells_def cell_faces_def pixel_at_def tag_faces_def)
  have blocked: "map_option position (resolve_collisions red_map zero2 zero3 camera_init) = Some zero3
     \<and> position camera_init \<noteq> zero3"
    using CheckCollisionCircleRec_in_wall(4)
    by (simp add: resolve_collisions_def scan_cells_def check_cell_def red_map_def pixel_at_def
        is_collider_def RED_def zero2_def zero3_def camera_init_def)
  have wall: "cell_at tall_map 0 1 = Some WHITE \<and> is_white WHITE
     \<and> cell_faces tall_map 0 1 = Some [TopF, BottomF, FrontF, BackF, RightF, LeftF]"
    by (simp add: tall_map_def cell_at_def pixel_at_def cell_faces_def side_test_def
        is_white_def is_black_def WHITE_def BLACK_def)
  have passes: "resolve_collisions tall_map \<lparr>v2_x = 0, v2_y = 1\<rparr> zero3 camera_in_wall = Some camera_in_wall
     \<and> position camera_in_wall \<noteq> zero3"
    by (simp add: resolve_collisions_def scan_cells_def check_cell_def tall_map_def pixel_at_def
        is_collider_def BLACK_def camera_in_wall_def zero3_def)
  show ?thesis using red blocked wall passes CheckCollisionCircleRec_in_wall(3) by simp
qed

end
